theory Spec2Isabelle
  imports Complex_Main "HOL-Library.Sublist"
begin

section \<open>Text\<close>

text \<open>
  A Python \<open>str\<close> is modelled as a \<^typ>\<open>string\<close>: a list of 8-bit characters, each
  standing for the code point of the same number. The development therefore covers text
  whose code points are below 256; \<open>bytes\<close> values are lists of the same characters.
\<close>

text \<open>\<open>str.lower\<close> on code points below 256: A-Z and the upper-case letters
  U+00C0..U+00DE (without the multiplication sign U+00D7) move up by 32.\<close>

definition lower_char :: "char \<Rightarrow> char" where
  "lower_char c = (let n = (of_char c :: nat) in
     if (65 \<le> n \<and> n \<le> 90) \<or> (192 \<le> n \<and> n \<le> 222 \<and> n \<noteq> 215)
     then char_of (n + 32) else c)"

definition lower :: "string \<Rightarrow> string" where
  "lower s = map lower_char s"

text \<open>The operator \<open>sub in s\<close> on strings.\<close>

fun contains :: "string \<Rightarrow> string \<Rightarrow> bool" where
  "contains sub [] = (sub = [])"
| "contains sub (c # cs) = (prefix sub (c # cs) \<or> contains sub cs)"


section \<open>Error classification and the retry policy (src/error\_handler.py)\<close>

datatype ErrorCategory =
    AUTHENTICATION | VALIDATION | TIMEOUT | BROWSER | NETWORK
  | LLM_API | DATA_PROCESSING | TASK_EXECUTION | UNKNOWN

text \<open>
  A raised exception (an instance of \<open>Exception\<close>) is described by what the handler reads
  from it: \<open>type(e).__name__\<close>, \<open>str(e)\<close>, the \<open>category\<close> attribute when the object is
  a \<open>QuizSystemError\<close> (\<open>None\<close> otherwise), and the classes it is an instance of.
\<close>

record exn =
  exc_type :: string
  exc_msg :: string
  exc_category :: "ErrorCategory option"
  exc_classes :: "string list"

definition isinstance :: "exn \<Rightarrow> string list \<Rightarrow> bool" where
  "isinstance e classes = list_ex (\<lambda>c. c \<in> set (exc_classes e)) classes"

text \<open>\<open>QuizSystemError(message, category)\<close> and its subclasses: \<open>str(e)\<close> is the message.\<close>

definition QuizSystemError :: "string \<Rightarrow> string \<Rightarrow> ErrorCategory \<Rightarrow> exn" where
  "QuizSystemError cls message category =
     \<lparr>exc_type = cls, exc_msg = message, exc_category = Some category,
      exc_classes = [cls, ''QuizSystemError'', ''Exception'', ''BaseException'', ''object'']\<rparr>"


definition ValidationError :: "string \<Rightarrow> exn" where
  "ValidationError message = QuizSystemError ''ValidationError'' message VALIDATION"

definition TimeoutError :: "string \<Rightarrow> exn" where
  "TimeoutError message = QuizSystemError ''TimeoutError'' message TIMEOUT"

definition BrowserError :: "string \<Rightarrow> exn" where
  "BrowserError message = QuizSystemError ''BrowserError'' message BROWSER"

definition NetworkError :: "string \<Rightarrow> exn" where
  "NetworkError message = QuizSystemError ''NetworkError'' message NETWORK"

definition LLMAPIError :: "string \<Rightarrow> exn" where
  "LLMAPIError message = QuizSystemError ''LLMAPIError'' message LLM_API"

definition DataProcessingError :: "string \<Rightarrow> exn" where
  "DataProcessingError message = QuizSystemError ''DataProcessingError'' message DATA_PROCESSING"

definition TaskExecutionError :: "string \<Rightarrow> exn" where
  "TaskExecutionError message = QuizSystemError ''TaskExecutionError'' message TASK_EXECUTION"

text \<open>A plain built-in exception \<open>cls(message)\<close> deriving directly from \<open>Exception\<close>.\<close>

definition builtin_error :: "string \<Rightarrow> string \<Rightarrow> exn" where
  "builtin_error cls message =
     \<lparr>exc_type = cls, exc_msg = message, exc_category = None,
      exc_classes = [cls, ''Exception'', ''BaseException'', ''object'']\<rparr>"

text \<open>
  The numeric settings are Python floats; they are modelled as exact reals (rounding and
  overflow of floating point are outside the model).
\<close>

record ErrorHandler =
  max_retries :: int
  base_delay :: real
  max_delay :: real
  exponential_base :: real

text \<open>The module-level instance \<open>error_handler = ErrorHandler()\<close> with its defaults.\<close>

definition error_handler :: ErrorHandler where
  "error_handler = \<lparr>max_retries = 3, base_delay = 1, max_delay = 30, exponential_base = 2\<rparr>"

text \<open>\<open>attempt\<close> is the 0-indexed attempt number, a value of \<open>range(...)\<close>.\<close>

definition calculate_delay :: "ErrorHandler \<Rightarrow> nat \<Rightarrow> real" where
  "calculate_delay h attempt =
     (let delay = base_delay h * (exponential_base h ^ attempt)
      in min delay (max_delay h))"

definition classify_error :: "exn \<Rightarrow> ErrorCategory" where
  "classify_error error =
     (case exc_category error of
        Some category \<Rightarrow> category
      | None \<Rightarrow>
         (let error_type = exc_type error;
              error_msg = lower (exc_msg error)
          in if contains ''403'' error_msg \<or> contains ''forbidden'' error_msg
                \<or> contains ''unauthorized'' error_msg then AUTHENTICATION
             else if contains ''400'' error_msg \<or> contains ''validation'' error_msg
                \<or> contains ''invalid'' error_msg then VALIDATION
             else if contains ''timeout'' (lower error_type) \<or> contains ''timeout'' error_msg
               then TIMEOUT
             else if contains ''playwright'' (lower error_type) \<or> contains ''browser'' error_msg
               then BROWSER
             else if list_ex (\<lambda>keyword. contains keyword (lower error_type))
                       [''http'', ''connection'', ''network''] then NETWORK
             else if list_ex (\<lambda>keyword. contains keyword (lower error_type))
                       [''openai'', ''ratelimit'', ''api''] then LLM_API
             else if list_ex (\<lambda>keyword. contains keyword (lower error_type))
                       [''parse'', ''decode'', ''json'', ''csv'', ''pdf''] then DATA_PROCESSING
             else UNKNOWN))"

definition is_retryable :: "exn \<Rightarrow> ErrorCategory option \<Rightarrow> bool" where
  "is_retryable error category_arg =
     (let category = (case category_arg of None \<Rightarrow> classify_error error | Some c \<Rightarrow> c)
      in if category \<in> {AUTHENTICATION, VALIDATION} then False
         else category \<in> {TIMEOUT, BROWSER, NETWORK, LLM_API, DATA_PROCESSING, TASK_EXECUTION})"

text \<open>
  The guard \<open>retry_on and not isinstance(e, retry_on)\<close>: an absent or empty tuple lets
  every error through.
\<close>

definition outside_retry_on :: "string list option \<Rightarrow> exn \<Rightarrow> bool" where
  "outside_retry_on retry_on e =
     (case retry_on of
        None \<Rightarrow> False
      | Some classes \<Rightarrow> classes \<noteq> [] \<and> \<not> isinstance e classes)"

text \<open>
  One run of \<open>with_retry\<close>: what it returns or raises, how often it called the operation,
  and the delays it slept, in order.
\<close>

record 'a retry_run =
  run_result :: "exn + 'a"
  run_calls :: nat
  run_sleeps :: "real list"

definition unexpected_retry_error :: exn where
  "unexpected_retry_error = builtin_error ''RuntimeError'' ''Unexpected error in retry logic''"

text \<open>
  The loop \<open>for attempt in range(max_retries + 1)\<close> over the remaining attempt numbers.
  The operation may behave differently at every call: \<open>func k\<close> is the outcome of its call
  in attempt \<open>k\<close>, \<open>Inl\<close> an exception and \<open>Inr\<close> a returned value.
\<close>

fun retry_loop ::
  "ErrorHandler \<Rightarrow> (nat \<Rightarrow> exn + 'a) \<Rightarrow> string list option \<Rightarrow> int \<Rightarrow> nat list
     \<Rightarrow> exn option \<Rightarrow> nat \<Rightarrow> real list \<Rightarrow> 'a retry_run" where
  "retry_loop h func retry_on mr [] last_error calls sleeps =
     \<lparr>run_result = Inl (case last_error of Some e \<Rightarrow> e | None \<Rightarrow> unexpected_retry_error),
      run_calls = calls, run_sleeps = sleeps\<rparr>"
| "retry_loop h func retry_on mr (attempt # rest) last_error calls sleeps =
     (case func attempt of
        Inr result \<Rightarrow> \<lparr>run_result = Inr result, run_calls = Suc calls, run_sleeps = sleeps\<rparr>
      | Inl e \<Rightarrow>
         (let category = classify_error e
          in if outside_retry_on retry_on e
               then \<lparr>run_result = Inl e, run_calls = Suc calls, run_sleeps = sleeps\<rparr>
             else if \<not> is_retryable e (Some category)
               then \<lparr>run_result = Inl e, run_calls = Suc calls, run_sleeps = sleeps\<rparr>
             else if int attempt \<ge> mr
               then \<lparr>run_result = Inl e, run_calls = Suc calls, run_sleeps = sleeps\<rparr>
             else retry_loop h func retry_on mr rest (Some e) (Suc calls)
                    (sleeps @ [calculate_delay h attempt])))"


text \<open>
  \<open>handle_error\<close> logs the error with one call of the logger that passes five keywords of
  its own and, after them, the entries of \<open>additional_context\<close> as further keywords
  (\<open>**additional_context\<close>). Python builds the keywords of such a call before the logger is
  entered and raises \<open>TypeError\<close> when a key occurs twice, whatever the logger is. The
  function is given the keys of \<open>additional_context\<close> in the order of the dictionary
  (none when the argument is absent) and returns the exception it raises, if any. The message
  of that exception starts with the name of the logger's method, which belongs to the
  logging module outside src/ and is left out. The logger itself is taken to accept every
  keyword, as each module's calls require.
\<close>

definition error_handled_keywords :: "string list" where
  "error_handled_keywords = [''context'', ''error'', ''error_type'', ''category'', ''retryable'']"

definition keyword_clash :: "string \<Rightarrow> exn" where
  "keyword_clash key =
     builtin_error ''TypeError''
       (''got multiple values for keyword argument '' @ [CHR 0x27] @ key @ [CHR 0x27])"

definition handle_error :: "exn \<Rightarrow> string \<Rightarrow> string list \<Rightarrow> exn option" where
  "handle_error error context additional_context_keys =
     (case find (\<lambda>key. key \<in> set error_handled_keywords) additional_context_keys of
        None \<Rightarrow> None
      | Some key \<Rightarrow> Some (keyword_clash key))"


section \<open>Values and models (src/models.py)\<close>

text \<open>How \<open>str\<close> prints an integer, for the messages built with f-strings.\<close>

fun str_nat :: "nat \<Rightarrow> string" where
  "str_nat n = (if n < 10 then [char_of (48 + n)]
                else str_nat (n div 10) @ [char_of (48 + n mod 10)])"

declare str_nat.simps [simp del]

definition str_int :: "int \<Rightarrow> string" where
  "str_int i = (if i < 0 then CHR ''-'' # str_nat (nat (- i)) else str_nat (nat i))"

text \<open>An optional string inside an f-string: \<open>None\<close> prints as the word None.\<close>

definition str_opt :: "string option \<Rightarrow> string" where
  "str_opt x = (case x of None \<Rightarrow> ''None'' | Some s \<Rightarrow> s)"

text \<open>
  Python values as they occur as answers and as results of \<open>json.loads\<close>. A float is an
  exact real or one of the three non-finite values.
\<close>

datatype pyfloat = Finite real | PosInf | NegInf | NaN

datatype pyval =
    PNone | PBool bool | PInt int | PFloat pyfloat | PStr string
  | PList "pyval list" | PDict "(string \<times> pyval) list"

text \<open>Truth value of an object, as \<open>bool(x)\<close> and \<open>if x\<close> compute it.\<close>

fun truthy :: "pyval \<Rightarrow> bool" where
  "truthy PNone = False"
| "truthy (PBool b) = b"
| "truthy (PInt i) = (i \<noteq> 0)"
| "truthy (PFloat f) = (f \<noteq> Finite 0)"
| "truthy (PStr s) = (s \<noteq> [])"
| "truthy (PList xs) = (xs \<noteq> [])"
| "truthy (PDict kvs) = (kvs \<noteq> [])"

datatype AnswerFormat = BOOLEAN | NUMBER | STRING | BASE64 | JSON

text \<open>URL fields hold the text of the URL; \<open>additional_context\<close> is a dictionary in
  insertion order.\<close>

record TaskDefinition =
  instructions :: string
  submit_url :: string
  answer_format :: AnswerFormat
  file_urls :: "string list"
  additional_context :: "(string \<times> pyval) list"

record SubmitResponse =
  correct :: bool
  reason :: "string option"
  url :: "string option"

record QuizResult =
  success :: bool
  total_time :: real
  quizzes_solved :: nat
  final_status :: string
  error :: "string option"

text \<open>The constructor of \<open>QuizResult\<close> validates \<open>total_time >= 0\<close> and raises a pydantic
  validation error otherwise (\<open>quizzes_solved\<close> is a count and cannot be negative).\<close>

definition pydantic_validation_error :: "string \<Rightarrow> exn" where
  "pydantic_validation_error message =
     \<lparr>exc_type = ''ValidationError'', exc_msg = message, exc_category = None,
      exc_classes = [''pydantic.ValidationError'', ''ValueError'', ''Exception'',
                     ''BaseException'', ''object'']\<rparr>"

definition make_QuizResult ::
  "bool \<Rightarrow> real \<Rightarrow> nat \<Rightarrow> string \<Rightarrow> string option \<Rightarrow> exn + QuizResult" where
  "make_QuizResult s t n st err =
     (if 0 \<le> t
      then Inr \<lparr>success = s, total_time = t, quizzes_solved = n, final_status = st, error = err\<rparr>
      else Inl (pydantic_validation_error ''1 validation error for QuizResult''))"


section \<open>The quiz sequence orchestrator (src/quiz\_orchestrator.py)\<close>

text \<open>
  The orchestrator with its two settings and its four collaborators, which are outside the
  model and taken as given: \<open>browser_manager.fetch_and_render\<close>,
  \<open>task_parser.parse_quiz_page\<close>, \<open>llm_agent.solve_task\<close> and
  \<open>answer_submitter.submit_answer\<close>. Solving and submitting may end differently at every
  round on the same quiz, so both take the number of the round (the value of
  \<open>retry_count\<close> when they are called). Every call of \<open>handle_error\<close> in this module
  passes keys that differ from the logger call's own keywords (\<open>quiz_url\<close>;
  \<open>exception_message\<close>, \<open>exception_type\<close>, \<open>retry_count\<close>, \<open>quiz_url\<close>; \<open>total_time\<close>,
  \<open>quizzes_solved\<close>, \<open>timeout\<close>; \<open>original_error\<close>, \<open>original_error_type\<close>, \<open>total_time\<close>,
  \<open>quizzes_solved\<close>), so it returns and is left out of the functions below.
\<close>

record QuizOrchestrator =
  timeout :: int
  max_retries_per_quiz :: int
  browser_manager_fetch_and_render :: "string \<Rightarrow> exn + string"
  task_parser_parse_quiz_page :: "string \<Rightarrow> string \<Rightarrow> exn + TaskDefinition"
  llm_agent_solve_task :: "TaskDefinition \<Rightarrow> nat \<Rightarrow> exn + pyval"
  answer_submitter_submit_answer :: "string \<Rightarrow> string \<Rightarrow> string \<Rightarrow> string \<Rightarrow> pyval \<Rightarrow> nat \<Rightarrow> exn + SubmitResponse"

definition should_skip_to_next :: "nat \<Rightarrow> real \<Rightarrow> bool" where
  "should_skip_to_next retry_count remaining_time =
     (if remaining_time < 30 \<and> retry_count \<ge> 1 then True
      else if remaining_time < 60 \<and> retry_count \<ge> 2 then True
      else False)"

text \<open>What one pass through the body of the \<open>try\<close> block does: return a next URL, go on to
  the next pass with a new \<open>retry_count\<close> and \<open>last_error\<close>, or raise an exception at some
  value of \<open>retry_count\<close>.\<close>

datatype try_result =
    Returned "string option"
  | Continue nat "string option"
  | Raised exn nat

definition plain_exception :: "string \<Rightarrow> exn" where
  "plain_exception message =
     \<lparr>exc_type = ''Exception'', exc_msg = message, exc_category = None,
      exc_classes = [''Exception'', ''BaseException'', ''object'']\<rparr>"

definition try_body ::
  "QuizOrchestrator \<Rightarrow> string \<Rightarrow> string \<Rightarrow> string \<Rightarrow> real \<Rightarrow> TaskDefinition \<Rightarrow> nat
     \<Rightarrow> try_result" where
  "try_body orch email secret quiz_url remaining_time task_definition retry_count =
     (case (case map_of (additional_context task_definition) ''is_demo'' of
              Some v \<Rightarrow> if truthy v then Inr (PStr ''Demo submission to proceed to actual quiz'')
                        else llm_agent_solve_task orch task_definition retry_count
            | None \<Rightarrow> llm_agent_solve_task orch task_definition retry_count) of
        Inl e \<Rightarrow> Raised e retry_count
      | Inr answer \<Rightarrow>
         (case answer_submitter_submit_answer orch (submit_url task_definition) email secret quiz_url answer
                 retry_count of
            Inl e \<Rightarrow> Raised e retry_count
          | Inr submit_response \<Rightarrow>
              if correct submit_response then Returned (url submit_response)
              else if url submit_response \<noteq> None
                      \<and> int retry_count \<ge> max_retries_per_quiz orch
                then Returned (url submit_response)
              else if url submit_response \<noteq> None
                      \<and> should_skip_to_next retry_count remaining_time
                then Returned (url submit_response)
              else if int (Suc retry_count) \<le> max_retries_per_quiz orch
                then Continue (Suc retry_count) (reason submit_response)
              else Raised (plain_exception
                     (''Failed to solve quiz after '' @ str_int (max_retries_per_quiz orch)
                        @ '' retries: '' @ str_opt (reason submit_response)))
                     (Suc retry_count)))"

text \<open>One run of \<open>_solve_single_quiz\<close>: its result, the number of passes through the loop and
  the number of one-second pauses.\<close>

record single_quiz_run =
  sq_result :: "exn + string option"
  sq_rounds :: nat
  sq_pauses :: nat

lemma try_body_Continue:
  "try_body orch email secret quiz_url remaining_time task retry_count = Continue n le
     \<Longrightarrow> n = Suc retry_count \<and> int n \<le> max_retries_per_quiz orch"
  by (auto simp: try_body_def split: option.splits sum.splits if_splits)

lemma try_body_Raised:
  "try_body orch email secret quiz_url remaining_time task retry_count = Raised e n
     \<Longrightarrow> retry_count \<le> n"
  by (auto simp: try_body_def split: option.splits sum.splits if_splits)

text \<open>The loop \<open>while retry_count <= self.max_retries_per_quiz\<close> with its \<open>except\<close> clause.\<close>

function solve_attempts ::
  "QuizOrchestrator \<Rightarrow> string \<Rightarrow> string \<Rightarrow> string \<Rightarrow> real \<Rightarrow> TaskDefinition \<Rightarrow> nat
     \<Rightarrow> string option \<Rightarrow> nat \<Rightarrow> nat \<Rightarrow> single_quiz_run" where
  "solve_attempts orch email secret quiz_url remaining_time task retry_count last_error
       rounds pauses =
     (if int retry_count \<le> max_retries_per_quiz orch then
        (case try_body orch email secret quiz_url remaining_time task retry_count of
           Returned next_url \<Rightarrow>
             \<lparr>sq_result = Inr next_url, sq_rounds = Suc rounds, sq_pauses = pauses\<rparr>
         | Continue retry_count' last_error' \<Rightarrow>
             solve_attempts orch email secret quiz_url remaining_time task retry_count'
               last_error' (Suc rounds) pauses
         | Raised e retry_count' \<Rightarrow>
             if int (Suc retry_count') > max_retries_per_quiz orch
             then \<lparr>sq_result = Inl (TaskExecutionError
                      (''Failed to solve quiz after '' @ str_int (max_retries_per_quiz orch)
                         @ '' retries: '' @ exc_msg e)),
                   sq_rounds = Suc rounds, sq_pauses = pauses\<rparr>
             else solve_attempts orch email secret quiz_url remaining_time task
                    (Suc retry_count') (Some (exc_msg e)) (Suc rounds) (Suc pauses))
      else \<lparr>sq_result = Inl (plain_exception (''Failed to solve quiz: '' @ str_opt last_error)),
            sq_rounds = rounds, sq_pauses = pauses\<rparr>)"
  by pat_completeness auto
termination
proof (relation "measure (\<lambda>(orch, email, secret, quiz_url, remaining_time, task, retry_count,
                             last_error, rounds, pauses).
                            nat (max_retries_per_quiz orch + 1 - int retry_count))")
  show "wf (measure (\<lambda>(orch, email, secret, quiz_url, remaining_time, task, retry_count,
                             last_error, rounds, pauses).
                            nat (max_retries_per_quiz orch + 1 - int retry_count)))"
    by simp
next
  fix orch :: QuizOrchestrator and email secret quiz_url :: string and remaining_time :: real
    and task :: TaskDefinition and retry_count rounds pauses x21 :: nat
    and last_error x22 :: "string option"
  assume "int retry_count \<le> max_retries_per_quiz orch"
    and "try_body orch email secret quiz_url remaining_time task retry_count = Continue x21 x22"
  then show "((orch, email, secret, quiz_url, remaining_time, task, x21, x22, Suc rounds, pauses),
              (orch, email, secret, quiz_url, remaining_time, task, retry_count, last_error,
               rounds, pauses))
             \<in> measure (\<lambda>(orch, email, secret, quiz_url, remaining_time, task, retry_count,
                             last_error, rounds, pauses).
                            nat (max_retries_per_quiz orch + 1 - int retry_count))"
    by (auto dest: try_body_Continue)
next
  fix orch :: QuizOrchestrator and email secret quiz_url :: string and remaining_time :: real
    and task :: TaskDefinition and retry_count rounds pauses x32 :: nat
    and last_error :: "string option" and x31 :: exn
  assume "int retry_count \<le> max_retries_per_quiz orch"
    and "try_body orch email secret quiz_url remaining_time task retry_count = Raised x31 x32"
    and "\<not> max_retries_per_quiz orch < int (Suc x32)"
  then show "((orch, email, secret, quiz_url, remaining_time, task, Suc x32, Some (exc_msg x31),
               Suc rounds, Suc pauses),
              (orch, email, secret, quiz_url, remaining_time, task, retry_count, last_error,
               rounds, pauses))
             \<in> measure (\<lambda>(orch, email, secret, quiz_url, remaining_time, task, retry_count,
                             last_error, rounds, pauses).
                            nat (max_retries_per_quiz orch + 1 - int retry_count))"
    by (auto dest: try_body_Raised)
qed

declare solve_attempts.simps [simp del]

definition solve_single_quiz ::
  "QuizOrchestrator \<Rightarrow> string \<Rightarrow> string \<Rightarrow> string \<Rightarrow> real \<Rightarrow> single_quiz_run" where
  "solve_single_quiz orch email secret quiz_url remaining_time =
     (case browser_manager_fetch_and_render orch quiz_url of
        Inl e \<Rightarrow> \<lparr>sq_result = Inl (BrowserError (''Failed to fetch quiz page: '' @ exc_msg e)),
                  sq_rounds = 0, sq_pauses = 0\<rparr>
      | Inr html_content \<Rightarrow>
         (case task_parser_parse_quiz_page orch html_content quiz_url of
            Inl e \<Rightarrow> \<lparr>sq_result = Inl (TaskExecutionError
                                        (''Failed to parse quiz page: '' @ exc_msg e)),
                      sq_rounds = 0, sq_pauses = 0\<rparr>
          | Inr task_definition \<Rightarrow>
              solve_attempts orch email secret quiz_url remaining_time task_definition 0 None
                0 0))"


text \<open>
  The surroundings of one run of \<open>solve_quiz_sequence\<close>: \<open>clock k\<close> is the value of the
  \<open>k\<close>-th reading of \<open>time.time()\<close> made by \<open>solve_quiz_sequence\<close> itself (reading 0
  is \<open>start_time\<close>), and \<open>deadline_fires i\<close>
  tells whether the \<open>asyncio.timeout\<close> scope cancels the run while quiz number \<open>i\<close>
  (counted from 0) is being solved. A cancellation is not an \<open>Exception\<close>, so no handler
  inside the quiz catches it, and the scope turns it into the timeout error.
\<close>

record run_env =
  clock :: "nat \<Rightarrow> real"
  deadline_fires :: "nat \<Rightarrow> bool"

text \<open>How the \<open>while current_url\<close> loop is left, with \<open>quizzes_solved\<close> and the number of
  visited URLs at that moment.\<close>

datatype loop_exit =
    LoopDone nat nat
  | LoopTimeout nat nat
  | LoopError exn nat nat

text \<open>The loop has no bound of its own: on an endless chain of fresh URLs only the deadline
  stops it. The value \<open>None\<close> stands for a run that never leaves the loop.\<close>

partial_function (option) sequence_loop ::
  "QuizOrchestrator \<Rightarrow> run_env \<Rightarrow> string \<Rightarrow> string \<Rightarrow> int \<Rightarrow> string option \<Rightarrow> string list
     \<Rightarrow> nat \<Rightarrow> loop_exit option" where
  "sequence_loop orch env email secret tmo current_url visited_urls solved =
     (case current_url of
        None \<Rightarrow> Some (LoopDone solved (length visited_urls))
      | Some u \<Rightarrow>
          if u = [] then Some (LoopDone solved (length visited_urls))
          else if u \<in> set visited_urls then Some (LoopDone solved (length visited_urls))
          else if deadline_fires env (length visited_urls)
            then Some (LoopTimeout solved (Suc (length visited_urls)))
          else
            (case sq_result (solve_single_quiz orch email secret u
                               (real_of_int tmo
                                  - (clock env (Suc (length visited_urls)) - clock env 0))) of
               Inl e \<Rightarrow> Some (LoopError e solved (Suc (length visited_urls)))
             | Inr next_url \<Rightarrow>
                 if next_url = None \<or> next_url = Some []
                 then Some (LoopDone (Suc solved) (Suc (length visited_urls)))
                 else sequence_loop orch env email secret tmo next_url (visited_urls @ [u])
                        (Suc solved)))"

text \<open>\<open>solve_quiz_sequence\<close>: the argument \<open>timeout\<close> replaces the orchestrator's setting
  unless it is absent or 0. A pydantic error raised while the successful result is built
  is caught by the general handler; one raised in a handler leaves the function.\<close>

definition solve_quiz_sequence ::
  "QuizOrchestrator \<Rightarrow> run_env \<Rightarrow> string \<Rightarrow> string \<Rightarrow> string \<Rightarrow> int option
     \<Rightarrow> (exn + QuizResult) option" where
  "solve_quiz_sequence orch env email secret initial_url timeout_arg =
     (let tmo = (case timeout_arg of None \<Rightarrow> timeout orch
                 | Some t \<Rightarrow> if t = 0 then timeout orch else t)
      in case sequence_loop orch env email secret tmo (Some initial_url) [] 0 of
           None \<Rightarrow> None
         | Some (LoopDone n v) \<Rightarrow>
             Some (case make_QuizResult True (clock env (Suc v) - clock env 0) n ''completed''
                          None of
                     Inr r \<Rightarrow> Inr r
                   | Inl e \<Rightarrow> make_QuizResult False (clock env (Suc (Suc v)) - clock env 0) n
                               ''error'' (Some (exc_msg e)))
         | Some (LoopTimeout n v) \<Rightarrow>
             Some (make_QuizResult False (clock env (Suc v) - clock env 0) n ''timeout''
                     (Some (''Exceeded '' @ str_int tmo @ '' second time limit'')))
         | Some (LoopError e n v) \<Rightarrow>
             Some (make_QuizResult False (clock env (Suc v) - clock env 0) n ''error''
                     (Some (exc_msg e))))"


section \<open>Answer submission (src/answer\_submitter.py)\<close>

text \<open>
  What one pass through the \<open>try\<close> block of \<open>submit_answer\<close> meets, named after the
  \<open>except\<close> clause that takes it: a response parsed into a \<open>SubmitResponse\<close>; an
  \<open>httpx.HTTPStatusError\<close> from \<open>raise_for_status\<close> with the status code of the response;
  an \<open>httpx.RequestError\<close> (a failure below HTTP) with its text; a
  \<open>pydantic.ValidationError\<close> (the payload or the response data does not fit its model);
  or any other exception, such as the \<open>ValueError\<close> of \<open>response.json()\<close> on a body that
  is not JSON.
\<close>

datatype attempt_outcome =
    Parsed SubmitResponse
  | HTTPStatusError nat
  | RequestError string
  | PydanticValidationError string
  | OtherException exn

text \<open>One call of \<open>submit_answer\<close> from outside: the result, the number of passes and
  the delays slept, in order.\<close>

record submit_run =
  sub_result :: "exn + SubmitResponse"
  sub_attempts :: nat
  sub_sleeps :: "nat list"

text \<open>\<open>post k\<close> is what the pass made with \<open>retry_count = k\<close> meets; \<open>self_max_retries\<close>
  is the attribute \<open>self.max_retries\<close>. Each \<open>except\<close> clause calls \<open>handle_error\<close> before
  it retries or raises, with the keys of the dictionary it passes; an exception raised by
  that call inside the clause leaves \<open>submit_answer\<close>.\<close>

function submit_answer :: "int \<Rightarrow> (nat \<Rightarrow> attempt_outcome) \<Rightarrow> nat \<Rightarrow> submit_run"
  and retry_submission :: "int \<Rightarrow> (nat \<Rightarrow> attempt_outcome) \<Rightarrow> nat \<Rightarrow> submit_run" where
  "submit_answer self_max_retries post retry_count =
     (case post retry_count of
        Parsed submit_response \<Rightarrow>
          \<lparr>sub_result = Inr submit_response, sub_attempts = 1, sub_sleeps = []\<rparr>
      | HTTPStatusError status_code \<Rightarrow>
          (case handle_error
                  (NetworkError (''HTTP error during submission: '' @ str_nat status_code))
                  ''answer_submission_http_error''
                  [''status_code'', ''response_text'', ''retry_count'', ''submit_url''] of
             Some raised \<Rightarrow> \<lparr>sub_result = Inl raised, sub_attempts = 1, sub_sleeps = []\<rparr>
           | None \<Rightarrow>
               if status_code \<ge> 500 \<and> int retry_count < self_max_retries
               then (retry_submission self_max_retries post retry_count)
                      \<lparr>sub_attempts :=
                         Suc (sub_attempts (retry_submission self_max_retries post retry_count))\<rparr>
               else \<lparr>sub_result = Inl (NetworkError
                        (''HTTP error during submission: '' @ str_nat status_code)),
                     sub_attempts = 1, sub_sleeps = []\<rparr>)
      | RequestError message \<Rightarrow>
          (case handle_error
                  (NetworkError (''Network error during submission: '' @ message))
                  ''answer_submission_network_error''
                  [''error'', ''retry_count'', ''submit_url''] of
             Some raised \<Rightarrow> \<lparr>sub_result = Inl raised, sub_attempts = 1, sub_sleeps = []\<rparr>
           | None \<Rightarrow>
               if int retry_count < self_max_retries
               then (retry_submission self_max_retries post retry_count)
                      \<lparr>sub_attempts :=
                         Suc (sub_attempts (retry_submission self_max_retries post retry_count))\<rparr>
               else \<lparr>sub_result = Inl (NetworkError
                        (''Network error during submission: '' @ message)),
                     sub_attempts = 1, sub_sleeps = []\<rparr>)
      | PydanticValidationError message \<Rightarrow>
          (case handle_error
                  (ValidationError ''Failed to parse submission response'')
                  ''answer_submission_validation_error''
                  [''error'', ''retry_count'', ''submit_url''] of
             Some raised \<Rightarrow> \<lparr>sub_result = Inl raised, sub_attempts = 1, sub_sleeps = []\<rparr>
           | None \<Rightarrow>
               \<lparr>sub_result = Inl (ValidationError ''Failed to parse submission response''),
                sub_attempts = 1, sub_sleeps = []\<rparr>)
      | OtherException e \<Rightarrow>
          (case handle_error e ''answer_submission_unexpected_error''
                  [''exception_message'', ''exception_type'', ''retry_count'', ''submit_url''] of
             Some raised \<Rightarrow> \<lparr>sub_result = Inl raised, sub_attempts = 1, sub_sleeps = []\<rparr>
           | None \<Rightarrow> \<lparr>sub_result = Inl e, sub_attempts = 1, sub_sleeps = []\<rparr>))"
| "retry_submission self_max_retries post retry_count =
     (submit_answer self_max_retries post (retry_count + 1))
       \<lparr>sub_sleeps := min (2 ^ (retry_count + 1)) 10
                        # sub_sleeps (submit_answer self_max_retries post (retry_count + 1))\<rparr>"
  by pat_completeness auto
termination
  by (relation "measure (\<lambda>x. case x of
                   Inl (m, post, rc) \<Rightarrow> 2 * nat (m - int rc)
                 | Inr (m, post, rc) \<Rightarrow> 2 * nat (m - (int rc + 1)) + 1)") auto

declare submit_answer.simps [simp del] retry_submission.simps [simp del]


section \<open>The retry loops of the LLM call and of page rendering\<close>

text \<open>
  \<open>LLMAgent._call_llm_with_retry\<close> (src/llm\_agent.py): \<open>create k\<close> is what the call of the
  completion API in attempt \<open>k\<close> does, named after the \<open>except\<close> clause that takes it. With
  \<open>max_retries <= 0\<close> the loop body never runs and the function returns \<open>None\<close>.
\<close>

datatype 'r llm_outcome =
    Completion 'r
  | RateLimitError exn
  | APIError exn
  | OtherLLMError exn

record 'r llm_run =
  llm_result :: "exn + 'r option"
  llm_calls :: nat
  llm_sleeps :: "nat list"

fun call_llm_loop ::
  "(nat \<Rightarrow> 'r llm_outcome) \<Rightarrow> int \<Rightarrow> nat list \<Rightarrow> nat \<Rightarrow> nat list \<Rightarrow> 'r llm_run" where
  "call_llm_loop create mr [] calls sleeps =
     \<lparr>llm_result = Inr None, llm_calls = calls, llm_sleeps = sleeps\<rparr>"
| "call_llm_loop create mr (attempt # rest) calls sleeps =
     (case create attempt of
        Completion response \<Rightarrow>
          \<lparr>llm_result = Inr (Some response), llm_calls = Suc calls, llm_sleeps = sleeps\<rparr>
      | RateLimitError e \<Rightarrow>
          if int attempt < mr - 1
          then call_llm_loop create mr rest (Suc calls) (sleeps @ [2 ^ attempt])
          else \<lparr>llm_result = Inl e, llm_calls = Suc calls, llm_sleeps = sleeps\<rparr>
      | APIError e \<Rightarrow>
          if int attempt < mr - 1
          then call_llm_loop create mr rest (Suc calls) (sleeps @ [2 ^ attempt])
          else \<lparr>llm_result = Inl e, llm_calls = Suc calls, llm_sleeps = sleeps\<rparr>
      | OtherLLMError e \<Rightarrow>
          \<lparr>llm_result = Inl e, llm_calls = Suc calls, llm_sleeps = sleeps\<rparr>)"

definition call_llm_with_retry :: "(nat \<Rightarrow> 'r llm_outcome) \<Rightarrow> int \<Rightarrow> 'r llm_run" where
  "call_llm_with_retry create mr = call_llm_loop create mr [0..<nat mr] 0 []"

text \<open>
  \<open>BrowserManager.fetch_and_render\<close> (src/browser\_manager.py): \<open>load k\<close> is what attempt
  \<open>k\<close> to launch the browser and load the page does: the rendered HTML, a Playwright
  timeout, or any other exception, with its text. Both \<open>except\<close> clauses call
  \<open>handle_error\<close> with the keys \<open>url\<close>, \<open>attempt\<close> and \<open>max_retries\<close>, which differ from the
  logger call's own keywords, so it returns and is left out.
\<close>

datatype page_outcome =
    Rendered string
  | PlaywrightTimeoutError string
  | OtherPageError string

record fetch_run =
  fetch_result :: "exn + string"
  fetch_attempts :: nat
  fetch_sleeps :: "nat list"

fun fetch_loop ::
  "(nat \<Rightarrow> page_outcome) \<Rightarrow> string \<Rightarrow> int \<Rightarrow> nat list \<Rightarrow> nat \<Rightarrow> nat list \<Rightarrow> fetch_run" where
  "fetch_loop load page_url mr [] attempts sleeps =
     \<lparr>fetch_result = Inl (plain_exception (''Failed to fetch page: '' @ page_url)),
      fetch_attempts = attempts, fetch_sleeps = sleeps\<rparr>"
| "fetch_loop load page_url mr (attempt # rest) attempts sleeps =
     (case load attempt of
        Rendered html_content \<Rightarrow>
          \<lparr>fetch_result = Inr html_content, fetch_attempts = Suc attempts,
           fetch_sleeps = sleeps\<rparr>
      | PlaywrightTimeoutError message \<Rightarrow>
          if int attempt = mr - 1
          then \<lparr>fetch_result = Inl (TimeoutError (''Page load timeout for '' @ page_url)),
                fetch_attempts = Suc attempts, fetch_sleeps = sleeps\<rparr>
          else fetch_loop load page_url mr rest (Suc attempts) (sleeps @ [1])
      | OtherPageError message \<Rightarrow>
          if int attempt = mr - 1
          then \<lparr>fetch_result = Inl (BrowserError
                   (''Browser error while fetching '' @ page_url @ '': '' @ message)),
                fetch_attempts = Suc attempts, fetch_sleeps = sleeps\<rparr>
          else fetch_loop load page_url mr rest (Suc attempts) (sleeps @ [1]))"

definition fetch_and_render :: "(nat \<Rightarrow> page_outcome) \<Rightarrow> string \<Rightarrow> int \<Rightarrow> fetch_run" where
  "fetch_and_render load page_url mr = fetch_loop load page_url mr [0..<nat mr] 0 []"


text \<open>A response with a status of 500 or above.\<close>

definition server_error :: "attempt_outcome \<Rightarrow> bool" where
  "server_error outcome =
     (case outcome of
        HTTPStatusError status_code \<Rightarrow> status_code \<ge> 500
      | _ \<Rightarrow> False)"

text \<open>The error of \<open>response.json()\<close> on a body that is not JSON.\<close>

definition json_decode_error :: exn where
  "json_decode_error =
     \<lparr>exc_type = ''JSONDecodeError'', exc_msg = ''Expecting value: line 1 column 1 (char 0)'',
      exc_category = None,
      exc_classes = [''json.JSONDecodeError'', ''ValueError'', ''Exception'', ''BaseException'',
                     ''object'']\<rparr>"

text \<open>The failures the two other loops retry.\<close>

definition llm_retried :: "'r llm_outcome \<Rightarrow> bool" where
  "llm_retried outcome =
     (case outcome of RateLimitError e \<Rightarrow> True | APIError e \<Rightarrow> True | _ \<Rightarrow> False)"

definition page_failed :: "page_outcome \<Rightarrow> bool" where
  "page_failed outcome = (case outcome of Rendered html \<Rightarrow> False | _ \<Rightarrow> True)"


section \<open>Characters, stripping and regular expressions\<close>

text \<open>
  The character classes of Python on code points below 256: \<open>str.isspace\<close> (also the
  class \<open>\s\<close> and the characters \<open>str.strip()\<close> removes), the decimal digits \<open>\d\<close>,
  and the word characters \<open>\w\<close> (alphanumeric characters and the underscore).
\<close>

definition isspace :: "char \<Rightarrow> bool" where
  "isspace c = (let n = (of_char c :: nat) in
     (9 \<le> n \<and> n \<le> 13) \<or> (28 \<le> n \<and> n \<le> 32) \<or> n = 133 \<or> n = 160)"

definition isdigit :: "char \<Rightarrow> bool" where
  "isdigit c = (let n = (of_char c :: nat) in 48 \<le> n \<and> n \<le> 57)"

definition isword :: "char \<Rightarrow> bool" where
  "isword c = (let n = (of_char c :: nat) in
     (48 \<le> n \<and> n \<le> 57) \<or> (65 \<le> n \<and> n \<le> 90) \<or> (97 \<le> n \<and> n \<le> 122) \<or> n = 95
     \<or> n = 170 \<or> n = 178 \<or> n = 179 \<or> n = 181 \<or> n = 185 \<or> n = 186
     \<or> (188 \<le> n \<and> n \<le> 190) \<or> (192 \<le> n \<and> n \<le> 214) \<or> (216 \<le> n \<and> n \<le> 246)
     \<or> 248 \<le> n)"

definition strip :: "string \<Rightarrow> string" where
  "strip s = rev (dropWhile isspace (rev (dropWhile isspace s)))"




text \<open>
  The regular expressions of the sources are written in the following syntax and run by a
  backtracking matcher that lists the ways a pattern can match at a position in the order
  in which \<open>re\<close> tries them: a greedy repetition the longest first, a lazy one the shortest
  first, an alternative from left to right. Repetition is over single characters, which is
  all the patterns below need. A state of the matcher is the character before the current
  position, the rest of the text, and the text of the group if it has been closed.
\<close>

datatype rx =
    Chr "char \<Rightarrow> bool"
  | Rep "char \<Rightarrow> bool" nat "nat option"
  | LazyRep "char \<Rightarrow> bool" nat "nat option"
  | Seq rx rx
  | Alt rx rx
  | Grp rx
  | WordBoundary
  | EndOfString
  | Eps

type_synonym mstate = "char option \<times> string \<times> string option"

definition consume :: "nat \<Rightarrow> mstate \<Rightarrow> mstate" where
  "consume k st =
     (case st of (prev, s, cap) \<Rightarrow>
        ((case rev (take k s) of [] \<Rightarrow> prev | c # cs \<Rightarrow> Some c), drop k s, cap))"

definition rep_counts :: "(char \<Rightarrow> bool) \<Rightarrow> nat \<Rightarrow> nat option \<Rightarrow> string \<Rightarrow> nat list" where
  "rep_counts p lo hi s =
     (let run = length (takeWhile p s);
          top = (case hi of None \<Rightarrow> run | Some h \<Rightarrow> min h run)
      in [lo..<Suc top])"

definition word_at :: "char option \<Rightarrow> bool" where
  "word_at c = (case c of None \<Rightarrow> False | Some x \<Rightarrow> isword x)"

fun rmatch :: "rx \<Rightarrow> mstate \<Rightarrow> mstate list" where
  "rmatch (Chr p) st =
     (case st of
        (prev, [], cap) \<Rightarrow> []
      | (prev, c # cs, cap) \<Rightarrow> if p c then [(Some c, cs, cap)] else [])"
| "rmatch (Rep p lo hi) st =
     map (\<lambda>k. consume k st) (rev (rep_counts p lo hi (fst (snd st))))"
| "rmatch (LazyRep p lo hi) st =
     map (\<lambda>k. consume k st) (rep_counts p lo hi (fst (snd st)))"
| "rmatch (Seq a b) st = concat (map (rmatch b) (rmatch a st))"
| "rmatch (Alt a b) st = rmatch a st @ rmatch b st"
| "rmatch (Grp a) st =
     map (\<lambda>st'. (fst st', fst (snd st'),
                  Some (take (length (fst (snd st)) - length (fst (snd st'))) (fst (snd st)))))
         (rmatch a st)"
| "rmatch WordBoundary st =
     (if word_at (fst st) \<noteq> word_at (case fst (snd st) of [] \<Rightarrow> None | c # cs \<Rightarrow> Some c)
      then [st] else [])"
| "rmatch EndOfString st =
     (if fst (snd st) = [] \<or> fst (snd st) = [CHR 0x0A] then [st] else [])"
| "rmatch Eps st = [st]"

text \<open>A match: where it starts and ends, its text and the text of its group.\<close>

record rmatch_result =
  m_start :: nat
  m_end :: nat
  m_text :: string
  m_group :: "string option"

definition match_at :: "rx \<Rightarrow> string \<Rightarrow> nat \<Rightarrow> rmatch_result option" where
  "match_at r s i =
     (case rmatch r ((case rev (take i s) of [] \<Rightarrow> None | c # cs \<Rightarrow> Some c), drop i s, None) of
        [] \<Rightarrow> None
      | st # sts \<Rightarrow>
          Some \<lparr>m_start = i, m_end = length s - length (fst (snd st)),
                m_text = take (length s - length (fst (snd st)) - i) (drop i s),
                m_group = snd (snd st)\<rparr>)"

fun search_from :: "rx \<Rightarrow> string \<Rightarrow> nat list \<Rightarrow> rmatch_result option" where
  "search_from r s [] = None"
| "search_from r s (i # is) =
     (case match_at r s i of Some m \<Rightarrow> Some m | None \<Rightarrow> search_from r s is)"

text \<open>\<open>re.search\<close> takes the first position with a match, \<open>re.match\<close> only position 0.
  \<open>re.findall\<close> collects matches that do not overlap and returns the group of each, or
  the whole match when the pattern has no group (no pattern below matches the empty
  string).\<close>

definition re_search :: "rx \<Rightarrow> string \<Rightarrow> rmatch_result option" where
  "re_search r s = search_from r s [0..<Suc (length s)]"

definition re_match :: "rx \<Rightarrow> string \<Rightarrow> rmatch_result option" where
  "re_match r s = match_at r s 0"

function findall_from :: "rx \<Rightarrow> string \<Rightarrow> nat \<Rightarrow> rmatch_result list" where
  "findall_from r s i =
     (if i > length s then []
      else case search_from r s [i..<Suc (length s)] of
             None \<Rightarrow> []
           | Some m \<Rightarrow> m # findall_from r s (if m_end m > m_start m \<and> m_end m > i
                                               then m_end m else Suc (max i (m_start m))))"
  by pat_completeness auto
termination
  by (relation "measure (\<lambda>(r, s, i). Suc (length s) - i)") auto

declare findall_from.simps [simp del]

definition re_findall :: "rx \<Rightarrow> string \<Rightarrow> string list" where
  "re_findall r s =
     map (\<lambda>m. case m_group m of Some g \<Rightarrow> g | None \<Rightarrow> m_text m) (findall_from r s 0)"

text \<open>A literal string, and a literal string under \<open>re.IGNORECASE\<close>.\<close>

definition lits :: "string \<Rightarrow> rx" where
  "lits s = foldr (\<lambda>c r. Seq (Chr (\<lambda>x. x = c)) r) s Eps"



section \<open>Coercion of the final answer (src/llm\_agent.py)\<close>

text \<open>The value of a string of decimal digits.\<close>

definition int_of_digits :: "string \<Rightarrow> nat" where
  "int_of_digits ds = foldl (\<lambda>a c. 10 * a + (of_char c - 48)) 0 ds"

text \<open>\<open>int(num_str)\<close> on an optional minus sign and digits. Since Python 3.11, which the
  orchestrator needs for \<open>asyncio.timeout\<close>, more than 4300 digits raise \<open>ValueError\<close>.\<close>

definition py_int :: "string \<Rightarrow> exn + pyval" where
  "py_int num_str =
     (let ds = filter isdigit num_str
      in if length ds > 4300
         then Inl (builtin_error ''ValueError''
                     ''Exceeds the limit (4300 digits) for integer string conversion'')
         else if CHR ''-'' \<in> set num_str then Inr (PInt (- int (int_of_digits ds)))
         else Inr (PInt (int (int_of_digits ds))))"

text \<open>\<open>float(num_str)\<close> on an optional minus sign, digits, a point and digits, as an exact
  real.\<close>

definition py_float :: "string \<Rightarrow> pyval" where
  "py_float num_str =
     (let body = filter (\<lambda>c. c \<noteq> CHR ''-'') num_str;
          whole = takeWhile isdigit body;
          frac = drop (Suc (length whole)) body;
          v = real (int_of_digits whole) + real (int_of_digits frac) / 10 ^ length frac
      in PFloat (Finite (if CHR ''-'' \<in> set num_str then - v else v)))"

text \<open>The three patterns of \<open>_parse_answer\<close>: \<open>-?\d+\.?\d*\<close>, the fenced block
  \<open>```(?:json)?\s*(\{.*?\})\s*```\<close> and \<open>\{.*\}\<close>, the last two with \<open>re.DOTALL\<close>.\<close>

definition number_pattern :: rx where
  "number_pattern =
     Seq (Rep (\<lambda>c. c = CHR ''-'') 0 (Some 1))
       (Seq (Rep isdigit 1 None)
         (Seq (Rep (\<lambda>c. c = CHR ''.'') 0 (Some 1)) (Rep isdigit 0 None)))"

definition fenced_json_pattern :: rx where
  "fenced_json_pattern =
     Seq (lits (replicate 3 (CHR 0x60)))
       (Seq (Alt (lits ''json'') Eps)
         (Seq (Rep isspace 0 None)
           (Seq (Grp (Seq (Chr (\<lambda>c. c = CHR ''{''))
                       (Seq (LazyRep (\<lambda>c. True) 0 None) (Chr (\<lambda>c. c = CHR ''}'')))))
             (Seq (Rep isspace 0 None) (lits (replicate 3 (CHR 0x60)))))))"

definition braces_pattern :: rx where
  "braces_pattern =
     Seq (Chr (\<lambda>c. c = CHR ''{'')) (Seq (Rep (\<lambda>c. True) 0 None) (Chr (\<lambda>c. c = CHR ''}'')))"

text \<open>
  The body of the \<open>try\<close> block of \<open>_parse_answer\<close>, on the stripped content. \<open>json.loads\<close>
  is a parameter: \<open>json_loads s\<close> is the value it returns or the exception it raises.
  \<open>results\<close> is the dictionary \<open>self.context['results']\<close>, or \<open>None\<close> when the context has
  no such key.
\<close>

definition parse_answer_try ::
  "(string \<Rightarrow> exn + pyval) \<Rightarrow> (string \<Rightarrow> pyval option) option \<Rightarrow> string \<Rightarrow> AnswerFormat
     \<Rightarrow> exn + pyval" where
  "parse_answer_try json_loads results content fmt =
     (case fmt of
        BOOLEAN \<Rightarrow>
          if contains ''true'' (lower content) \<or> contains ''yes'' (lower content)
            then Inr (PBool True)
          else if contains ''false'' (lower content) \<or> contains ''no'' (lower content)
            then Inr (PBool False)
          else (case json_loads content of
                  Inl e \<Rightarrow> Inl e
                | Inr v \<Rightarrow> Inr (PBool (truthy v)))
      | NUMBER \<Rightarrow>
          (case re_findall number_pattern content of
             num_str # rest \<Rightarrow>
               if CHR ''.'' \<in> set num_str then Inr (py_float num_str) else py_int num_str
           | [] \<Rightarrow> json_loads content)
      | STRING \<Rightarrow>
          (case json_loads content of
             Inr (PStr parsed) \<Rightarrow> Inr (PStr parsed)
           | _ \<Rightarrow> Inr (PStr content))
      | BASE64 \<Rightarrow>
          (case results of
             None \<Rightarrow> Inl (builtin_error ''KeyError'' ''results'')
           | Some d \<Rightarrow> (case d content of Some v \<Rightarrow> Inr v | None \<Rightarrow> Inr (PStr content)))
      | JSON \<Rightarrow>
          (case json_loads content of
             Inr v \<Rightarrow> Inr v
           | Inl e \<Rightarrow>
               if isinstance e [''json.JSONDecodeError''] then
                 (case re_search fenced_json_pattern content of
                    Some m \<Rightarrow> json_loads (case m_group m of Some g \<Rightarrow> g | None \<Rightarrow> [])
                  | None \<Rightarrow>
                     (case re_search braces_pattern content of
                        Some m \<Rightarrow> json_loads (m_text m)
                      | None \<Rightarrow> Inl e))
               else Inl e))"

text \<open>\<open>_parse_answer\<close>: strip the content, run the body, and on any exception return the
  stripped content.\<close>

definition parse_answer ::
  "(string \<Rightarrow> exn + pyval) \<Rightarrow> (string \<Rightarrow> pyval option) option \<Rightarrow> string \<Rightarrow> AnswerFormat
     \<Rightarrow> exn + pyval" where
  "parse_answer json_loads results content fmt =
     (case parse_answer_try json_loads results (strip content) fmt of
        Inr v \<Rightarrow> Inr v
      | Inl e \<Rightarrow> Inr (PStr (strip content)))"


section \<open>Base64 and UTF-8 (Python standard library)\<close>

text \<open>
  The standard base64 alphabet: the character of a 6-bit value and the value of a
  character.
\<close>

definition b64_char :: "nat \<Rightarrow> char" where
  "b64_char n =
     (if n < 26 then char_of (n + 65)
      else if n < 52 then char_of (n + 71)
      else if n < 62 then char_of (n - 4)
      else if n = 62 then CHR ''+'' else CHR ''/'')"

definition b64_index :: "char \<Rightarrow> nat option" where
  "b64_index c =
     (let n = (of_char c :: nat)
      in if 65 \<le> n \<and> n \<le> 90 then Some (n - 65)
         else if 97 \<le> n \<and> n \<le> 122 then Some (n - 71)
         else if 48 \<le> n \<and> n \<le> 57 then Some (n + 4)
         else if c = CHR ''+'' then Some 62
         else if c = CHR ''/'' then Some 63
         else None)"

text \<open>\<open>base64.b64encode\<close> on bytes.\<close>

fun b64encode :: "string \<Rightarrow> string" where
  "b64encode [] = []"
| "b64encode [a] =
     [b64_char (of_char a div 4), b64_char ((of_char a mod 4) * 16), CHR ''='', CHR ''='']"
| "b64encode [a, b] =
     [b64_char (of_char a div 4),
      b64_char ((of_char a mod 4) * 16 + of_char b div 16),
      b64_char ((of_char b mod 16) * 4), CHR ''='']"
| "b64encode (a # b # c # rest) =
     [b64_char (of_char a div 4),
      b64_char ((of_char a mod 4) * 16 + of_char b div 16),
      b64_char ((of_char b mod 16) * 4 + of_char c div 64),
      b64_char (of_char c mod 64)] @ b64encode rest"

definition binascii_error :: "string \<Rightarrow> exn" where
  "binascii_error message =
     \<lparr>exc_type = ''Error'', exc_msg = message, exc_category = None,
      exc_classes = [''binascii.Error'', ''ValueError'', ''Exception'', ''BaseException'',
                     ''object'']\<rparr>"

text \<open>
  The decoding loop of \<open>binascii.a2b_base64\<close> in CPython 3.11, with its state: the position
  in the current group of four, the bits left over, the padding characters seen, whether
  padding has started, and the bytes written so far. In strict mode characters outside the
  alphabet, data after the padding and data inside the padding are errors; otherwise
  characters outside the alphabet are skipped and decoding stops at the end of the padding.
\<close>

fun a2b_loop :: "bool \<Rightarrow> nat \<Rightarrow> nat \<Rightarrow> nat \<Rightarrow> bool \<Rightarrow> string \<Rightarrow> string \<Rightarrow> exn + string" where
  "a2b_loop strict quad_pos leftchar pads padding_started out [] =
     (if quad_pos \<noteq> 0
      then Inl (binascii_error
             (if quad_pos = 1
              then ''Invalid base64-encoded string: number of data characters (''
                     @ str_nat ((length out div 3) * 4 + 1)
                     @ '') cannot be 1 more than a multiple of 4''
              else ''Incorrect padding''))
      else Inr out)"
| "a2b_loop strict quad_pos leftchar pads padding_started out (this_ch # rest) =
     (if this_ch = CHR ''='' then
        (if quad_pos \<ge> 2 \<and> quad_pos + (pads + 1) \<ge> 4 then
           (if strict \<and> rest \<noteq> [] then Inl (binascii_error ''Excess data after padding'')
            else Inr out)
         else a2b_loop strict quad_pos leftchar (if quad_pos \<ge> 2 then pads + 1 else pads) True
                out rest)
      else
        (case b64_index this_ch of
           None \<Rightarrow>
             if strict then Inl (binascii_error ''Only base64 data is allowed'')
             else a2b_loop strict quad_pos leftchar pads padding_started out rest
         | Some v \<Rightarrow>
             if strict \<and> padding_started
               then Inl (binascii_error ''Discontinuous padding not allowed'')
             else if quad_pos = 0 then a2b_loop strict 1 v 0 padding_started out rest
             else if quad_pos = 1
               then a2b_loop strict 2 (v mod 16) 0 padding_started
                      (out @ [char_of (leftchar * 4 + v div 16)]) rest
             else if quad_pos = 2
               then a2b_loop strict 3 (v mod 4) 0 padding_started
                      (out @ [char_of (leftchar * 16 + v div 4)]) rest
             else a2b_loop strict 0 0 0 padding_started
                    (out @ [char_of (leftchar * 64 + v)]) rest))"

definition a2b_base64 :: "bool \<Rightarrow> string \<Rightarrow> exn + string" where
  "a2b_base64 strict data =
     (case data of
        c # cs \<Rightarrow> if strict \<and> c = CHR ''=''
                  then Inl (binascii_error ''Leading padding not allowed'')
                  else a2b_loop strict 0 0 0 False [] data
      | [] \<Rightarrow> a2b_loop strict 0 0 0 False [] data)"

text \<open>\<open>base64.b64decode(s, validate=...)\<close> on a \<open>str\<close>: the text must be ASCII.\<close>

definition b64decode :: "string \<Rightarrow> bool \<Rightarrow> exn + string" where
  "b64decode s validate =
     (if list_all (\<lambda>c. (of_char c :: nat) < 128) s then a2b_base64 validate s
      else Inl (builtin_error ''ValueError''
                  ''string argument should contain only ASCII characters''))"

text \<open>
  UTF-8 for the text of the model (code points below 256): one byte below 128, two bytes
  with lead byte C2 or C3 otherwise. Bytes that encode a higher code point have no
  counterpart in the model and are reported like bytes that are not UTF-8.
\<close>

definition utf8_encode :: "string \<Rightarrow> string" where
  "utf8_encode s =
     concat (map (\<lambda>c. if (of_char c :: nat) < 128 then [c]
                      else [char_of (192 + (of_char c :: nat) div 64),
                            char_of (128 + (of_char c :: nat) mod 64)]) s)"





section \<open>The task parser (src/task\_parser.py)\<close>

text \<open>
  The library calls of the parser that stay outside the model, as functions of their
  arguments: the three queries on \<open>BeautifulSoup(html, 'html.parser')\<close> (the \<open>get_text()\<close>
  of every \<open>pre\<close>, \<open>code\<close>, \<open>div\<close> and \<open>span\<close> element in document order, the value of
  \<open>data-task\<close> of every element that has the attribute, the \<open>get_text()\<close> of every
  \<open>script\<close> element), the validation of a URL by pydantic's \<open>HttpUrl\<close> (the text of the
  validated URL, or the validation error), and \<open>urlparse(url).scheme\<close> and \<open>urljoin\<close>,
  which raise \<open>ValueError\<close> on some malformed URLs.
\<close>

record page_libs =
  soup_tag_texts :: "string \<Rightarrow> string list"
  soup_data_task :: "string \<Rightarrow> string list"
  soup_script_texts :: "string \<Rightarrow> string list"
  HttpUrl :: "string \<Rightarrow> exn + string"
  urlparse_scheme :: "string \<Rightarrow> exn + string"
  urljoin :: "string \<Rightarrow> string \<Rightarrow> exn + string"

definition b64_class :: "char \<Rightarrow> bool" where
  "b64_class c = (b64_index c \<noteq> None)"

text \<open>The patterns \<open>^[A-Za-z0-9+/]*={0,2}$\<close>, \<open>["\']([A-Za-z0-9+/]{20,}={0,2})["\']\<close>
  and \<open>\b([A-Za-z0-9+/]{40,}={0,2})\b\<close>.\<close>

definition base64_shape_pattern :: rx where
  "base64_shape_pattern =
     Seq (Rep b64_class 0 None) (Seq (Rep (\<lambda>c. c = CHR ''='') 0 (Some 2)) EndOfString)"

definition script_literal_pattern :: rx where
  "script_literal_pattern =
     Seq (Chr (\<lambda>c. c = CHR 0x22 \<or> c = CHR 0x27))
       (Seq (Grp (Seq (Rep b64_class 20 None) (Rep (\<lambda>c. c = CHR ''='') 0 (Some 2))))
         (Chr (\<lambda>c. c = CHR 0x22 \<or> c = CHR 0x27)))"

definition raw_base64_pattern :: rx where
  "raw_base64_pattern =
     Seq WordBoundary
       (Seq (Grp (Seq (Rep b64_class 40 None) (Rep (\<lambda>c. c = CHR ''='') 0 (Some 2))))
         WordBoundary)"

definition is_base64 :: "string \<Rightarrow> bool" where
  "is_base64 s =
     (if s = [] \<or> length s < 20 then False
      else if re_match base64_shape_pattern s = None then False
      else (case b64decode s True of
              Inr decoded \<Rightarrow> length decoded > 0
            | Inl e \<Rightarrow> False))"

definition value_error :: "string \<Rightarrow> exn" where
  "value_error message = builtin_error ''ValueError'' message"

definition extract_base64_content :: "page_libs \<Rightarrow> string \<Rightarrow> exn + string" where
  "extract_base64_content libs html =
     (case find is_base64 (map strip (soup_tag_texts libs html)) of
        Some text \<Rightarrow> Inr text
      | None \<Rightarrow>
     (case find is_base64 (soup_data_task libs html) of
        Some content \<Rightarrow> Inr content
      | None \<Rightarrow>
     (case find is_base64
             (List.map_filter
                (\<lambda>script_text. case re_search script_literal_pattern script_text of
                                  Some m \<Rightarrow> m_group m | None \<Rightarrow> None)
                (soup_script_texts libs html)) of
        Some potential_base64 \<Rightarrow> Inr potential_base64
      | None \<Rightarrow>
     (case find is_base64 (re_findall raw_base64_pattern html) of
        Some m \<Rightarrow> Inr m
      | None \<Rightarrow> Inl (value_error ''Could not find base64-encoded content in HTML'')))))"























text \<open>The text of the parsing scenario, a page that holds its encoding in a \<open>pre\<close>
  element, and what the libraries answer on that page.\<close>

definition scenario_text :: string where
  "scenario_text = ''Submit to: https://x/submit. Return a number. Download https://x/data.csv''"



text \<open>Three more pages with what the libraries answer on them: an encoding as a quoted
  literal in a script block, the encoding of a short text in a \<open>pre\<close> element, and the
  encoding of the scenario text as bare text in a \<open>p\<close> element.\<close>

definition script_text :: string where
  "script_text = ''Test instructions from script tag with enough length''"






definition bare_html :: string where
  "bare_html = ''<html><body><p>'' @ b64encode (utf8_encode scenario_text) @ ''</p></body></html>''"

definition bare_libs :: page_libs where
  "bare_libs =
     \<lparr>soup_tag_texts = (\<lambda>html. []),
      soup_data_task = (\<lambda>html. []),
      soup_script_texts = (\<lambda>html. []),
      HttpUrl = (\<lambda>u. Inr u),
      urlparse_scheme = (\<lambda>u. Inr ''https''),
      urljoin = (\<lambda>base u. Inr u)\<rparr>"

text \<open>Concrete operations for the example runs below: \<open>json.loads\<close> on texts that are
  not JSON documents, an operation that raises a network error at every call, and two
  sequences of submission outcomes.\<close>

definition not_json :: "string \<Rightarrow> exn + pyval" where
  "not_json s = Inl json_decode_error"


definition two_server_errors :: "nat \<Rightarrow> attempt_outcome" where
  "two_server_errors k =
     (if k < 2 then HTTPStatusError 500
      else Parsed \<lparr>correct = True, reason = None, url = None\<rparr>)"

definition body_not_json :: "nat \<Rightarrow> attempt_outcome" where
  "body_not_json k = OtherException json_decode_error"

text \<open>Concrete orchestrators and surroundings for the example runs below.\<close>

definition example_task :: TaskDefinition where
  "example_task = \<lparr>instructions = ''Return a number'',
     submit_url = ''https://example.com/submit'', answer_format = NUMBER, file_urls = [],
     additional_context = []\<rparr>"

definition loop_orchestrator :: QuizOrchestrator where
  "loop_orchestrator =
     \<lparr>timeout = 180, max_retries_per_quiz = 2,
      browser_manager_fetch_and_render = (\<lambda>u. Inr ''<html><body>Quiz content</body></html>''),
      task_parser_parse_quiz_page = (\<lambda>html base. Inr example_task),
      llm_agent_solve_task = (\<lambda>task k. Inr (PInt 42)),
      answer_submitter_submit_answer = (\<lambda>submit email secret quiz answer k.
         if quiz = ''https://example.com/quiz1''
         then Inr \<lparr>correct = True, reason = Some [], url = Some ''https://example.com/quiz2''\<rparr>
         else Inr \<lparr>correct = True, reason = Some [], url = Some ''https://example.com/quiz1''\<rparr>)\<rparr>"

definition steady_env :: run_env where
  "steady_env = \<lparr>clock = (\<lambda>k. real k), deadline_fires = (\<lambda>i. False)\<rparr>"

definition short_time_orchestrator :: QuizOrchestrator where
  "short_time_orchestrator =
     \<lparr>timeout = 180, max_retries_per_quiz = 2,
      browser_manager_fetch_and_render = (\<lambda>u. Inr ''<html><body>Quiz content</body></html>''),
      task_parser_parse_quiz_page = (\<lambda>html base. Inr example_task),
      llm_agent_solve_task = (\<lambda>task k. Inr (PInt 42)),
      answer_submitter_submit_answer = (\<lambda>submit email secret quiz answer k.
         if k = 0
         then Inr \<lparr>correct = False, reason = Some ''wrong'',
                   url = Some ''https://example.com/quiz2''\<rparr>
         else Inr \<lparr>correct = True, reason = None, url = Some ''https://example.com/quiz3''\<rparr>)\<rparr>"


section \<open>Properties of the retry policy\<close>




lemma retry_loop_succeeds:
  assumes "\<forall>k. a \<le> k \<and> k < j \<longrightarrow>
             (\<exists>e. func k = Inl e \<and> \<not> outside_retry_on ro e
                  \<and> is_retryable e (Some (classify_error e)) \<and> int k < mr)"
    and "a \<le> j" and "j < n"
    and "func j = Inr v"
  shows "retry_loop h func ro mr [a..<n] le calls sl =
           \<lparr>run_result = Inr v, run_calls = Suc (calls + (j - a)),
            run_sleeps = sl @ map (calculate_delay h) [a..<j]\<rparr>"
  using assms
proof (induction "j - a" arbitrary: a le calls sl)
  case 0
  then have "a = j" by simp
  with 0 show ?case by (auto simp: upt_conv_Cons)
next
  case (Suc d)
  then have lt: "a < j" and an: "a < n" by simp_all
  from Suc.prems(1) lt obtain e' where e': "func a = Inl e'" "\<not> outside_retry_on ro e'"
      "is_retryable e' (Some (classify_error e'))" "int a < mr"
    by auto
  have step: "retry_loop h func ro mr [a..<n] le calls sl =
      retry_loop h func ro mr [Suc a..<n] (Some e') (Suc calls) (sl @ [calculate_delay h a])"
    using e' an by (simp add: upt_conv_Cons)
  have "retry_loop h func ro mr [Suc a..<n] (Some e') (Suc calls) (sl @ [calculate_delay h a]) =
      \<lparr>run_result = Inr v, run_calls = Suc (Suc calls + (j - Suc a)),
       run_sleeps = (sl @ [calculate_delay h a]) @ map (calculate_delay h) [Suc a..<j]\<rparr>"
  proof (rule Suc.hyps(1))
    show "d = j - Suc a" using Suc.hyps(2) by simp
    show "\<forall>k. Suc a \<le> k \<and> k < j \<longrightarrow>
             (\<exists>e. func k = Inl e \<and> \<not> outside_retry_on ro e
                  \<and> is_retryable e (Some (classify_error e)) \<and> int k < mr)"
      using Suc.prems(1) by auto
    show "Suc a \<le> j" using lt by simp
  qed (use Suc.prems in auto)
  with step lt show ?case by (simp add: upt_conv_Cons)
qed






lemma upt_3: "[0..<3] = [0, 1, 2]" and upt_2: "[0..<2] = [0, 1]"
  by (simp_all add: upt_rec)






section \<open>Properties of the orchestrator\<close>

lemma cycle_loop:
  assumes "A \<noteq> []" "B \<noteq> []" "A \<noteq> B"
    and "\<not> deadline_fires env 0" "\<not> deadline_fires env 1"
    and "sq_result (solve_single_quiz orch email secret A
           (real_of_int tmo - (clock env 1 - clock env 0))) = Inr (Some B)"
    and "sq_result (solve_single_quiz orch email secret B
           (real_of_int tmo - (clock env 2 - clock env 0))) = Inr (Some A)"
  shows "sequence_loop orch env email secret tmo (Some A) [] 0 = Some (LoopDone 2 2)"
proof -
  have 3: "sequence_loop orch env email secret tmo (Some A) [A, B] 2 = Some (LoopDone 2 2)"
    using assms(1) by (subst sequence_loop.simps) simp
  have 2: "sequence_loop orch env email secret tmo (Some B) [A] 1 = Some (LoopDone 2 2)"
    using assms 3 by (subst sequence_loop.simps) (simp add: numeral_2_eq_2)
  show ?thesis
    using assms 2 by (subst sequence_loop.simps) simp
qed

lemma try_body_incorrect_with_url:
  assumes "map_of (additional_context task) ''is_demo'' = None"
    and "llm_agent_solve_task orch task retry_count = Inr answer"
    and "answer_submitter_submit_answer orch (submit_url task) email secret quiz_url answer retry_count
           = Inr \<lparr>correct = False, reason = r, url = Some u\<rparr>"
  shows "try_body orch email secret quiz_url remaining_time task retry_count =
           (if max_retries_per_quiz orch \<le> int retry_count then Returned (Some u)
            else if (remaining_time < 30 \<and> 1 \<le> retry_count)
                    \<or> (remaining_time < 60 \<and> 2 \<le> retry_count) then Returned (Some u)
            else Continue (Suc retry_count) r)"
  using assms by (auto simp: try_body_def should_skip_to_next_def)

text \<open>
  Claim C4. When the quiz at \<open>A\<close> ends with next URL \<open>B\<close> and the quiz at \<open>B\<close> ends with
  next URL \<open>A\<close> (two distinct non-empty URLs, the deadline firing in neither quiz), the
  third pass finds \<open>A\<close> among the visited URLs and leaves the loop: the sequence returns
  \<open>success = True\<close>, \<open>quizzes_solved = 2\<close> and \<open>final_status = "completed"\<close>. The clock must
  not have gone backwards, or the result object would be rejected for a negative
  \<open>total_time\<close>.
\<close>

theorem cycle_detection_completes:
  assumes "tmo = (case timeout_arg of None \<Rightarrow> timeout orch
                  | Some t \<Rightarrow> if t = 0 then timeout orch else t)"
    and "A \<noteq> []" and "B \<noteq> []" and "A \<noteq> B"
    and "\<not> deadline_fires env 0" and "\<not> deadline_fires env 1"
    and "sq_result (solve_single_quiz orch email secret A
           (real_of_int tmo - (clock env 1 - clock env 0))) = Inr (Some B)"
    and "sq_result (solve_single_quiz orch email secret B
           (real_of_int tmo - (clock env 2 - clock env 0))) = Inr (Some A)"
    and "clock env 0 \<le> clock env 3"
  shows "solve_quiz_sequence orch env email secret A timeout_arg =
           Some (Inr \<lparr>success = True, total_time = clock env 3 - clock env 0,
                      quizzes_solved = 2, final_status = ''completed'', error = None\<rparr>)"
proof -
  have "sequence_loop orch env email secret tmo (Some A) [] 0 = Some (LoopDone 2 2)"
    using assms(2-8) by (rule cycle_loop)
  then show ?thesis
    using assms(1,9)
    by (simp add: solve_quiz_sequence_def make_QuizResult_def numeral_3_eq_3 numeral_2_eq_2)
qed

lemma loop_orchestrator_quiz:
  "sq_result (solve_single_quiz loop_orchestrator e s ''https://example.com/quiz1'' r)
     = Inr (Some ''https://example.com/quiz2'')"
  "sq_result (solve_single_quiz loop_orchestrator e s ''https://example.com/quiz2'' r)
     = Inr (Some ''https://example.com/quiz1'')"
  by (simp_all add: solve_single_quiz_def loop_orchestrator_def solve_attempts.simps
      try_body_def example_task_def)

text \<open>
  The run of the orchestrator's loop test: quiz1 answers with quiz2, quiz2 with quiz1.
\<close>

theorem cycle_detection_completes_witness:
  "solve_quiz_sequence loop_orchestrator steady_env ''test@example.com'' ''secret123''
     ''https://example.com/quiz1'' None =
   Some (Inr \<lparr>success = True, total_time = 3, quizzes_solved = 2,
              final_status = ''completed'', error = None\<rparr>)"
proof -
  have "solve_quiz_sequence loop_orchestrator steady_env ''test@example.com'' ''secret123''
     ''https://example.com/quiz1'' None =
     Some (Inr \<lparr>success = True, total_time = clock steady_env 3 - clock steady_env 0,
                quizzes_solved = 2, final_status = ''completed'', error = None\<rparr>)"
  proof (rule cycle_detection_completes[where B = "''https://example.com/quiz2''" and tmo = 180])
    show "180 = (case None of None \<Rightarrow> timeout loop_orchestrator
                  | Some t \<Rightarrow> if t = 0 then timeout loop_orchestrator else t)"
      by (simp add: loop_orchestrator_def)
  qed (simp_all add: loop_orchestrator_quiz steady_env_def)
  then show ?thesis by (simp add: steady_env_def)
qed

text \<open>
  Claim C7, at the input where the code departs from it. With 10 seconds left, a cap of 2
  and a first verdict that is incorrect and carries a next URL, one attempt has been made
  and less than 30 seconds remain, yet \<open>_should_skip_to_next\<close> is called with
  \<open>retry_count = 0\<close> and answers \<open>False\<close>: the quiz is solved a second time, and the URL
  returned is the one of the second verdict.
\<close>

theorem first_round_never_skips_on_time:
  "should_skip_to_next 0 10 = False
   \<and> solve_single_quiz short_time_orchestrator ''test@example.com'' ''secret123''
       ''https://example.com/quiz1'' 10
     = \<lparr>sq_result = Inr (Some ''https://example.com/quiz3''), sq_rounds = 2, sq_pauses = 0\<rparr>"
  by (simp add: should_skip_to_next_def solve_single_quiz_def short_time_orchestrator_def
      solve_attempts.simps try_body_def example_task_def)


section \<open>Properties of the component retry loops\<close>

text \<open>Which calls of \<open>handle_error\<close> return and which raise: the keys passed by the HTTP
  clause and by the last clause of \<open>submit_answer\<close>, by the orchestrator and by the browser
  manager do not clash; the key \<open>error\<close> passed by the clauses for request errors and for
  validation errors does.\<close>

lemma handle_error_returns:
  "handle_error e c [] = None"
  "handle_error e c [''status_code'', ''response_text'', ''retry_count'', ''submit_url''] = None"
  "handle_error e c [''exception_message'', ''exception_type'', ''retry_count'', ''submit_url'']
     = None"
  "handle_error e c [''quiz_url''] = None"
  "handle_error e c [''exception_message'', ''exception_type'', ''retry_count'', ''quiz_url'']
     = None"
  "handle_error e c [''total_time'', ''quizzes_solved'', ''timeout''] = None"
  "handle_error e c [''original_error'', ''original_error_type'', ''total_time'',
                     ''quizzes_solved''] = None"
  "handle_error e c [''url'', ''attempt'', ''max_retries''] = None"
  by (simp_all add: handle_error_def error_handled_keywords_def)

lemma handle_error_raises:
  "handle_error e c [''error'', ''retry_count'', ''submit_url''] = Some (keyword_clash ''error'')"
  by (simp add: handle_error_def error_handled_keywords_def)

lemma submit_answer_retries:
  assumes "server_error (post a)" and "int a < mr"
  shows "submit_answer mr post a =
           (submit_answer mr post (Suc a))
             \<lparr>sub_attempts := Suc (sub_attempts (submit_answer mr post (Suc a))),
              sub_sleeps := min (2 ^ Suc a) 10 # sub_sleeps (submit_answer mr post (Suc a))\<rparr>"
  using assms
  by (subst submit_answer.simps)
     (auto simp: server_error_def retry_submission.simps handle_error_returns
           split: attempt_outcome.splits)

lemma submit_answer_prefix:
  assumes "\<forall>k. a \<le> k \<and> k < j \<longrightarrow> server_error (post k)" and "a \<le> j" and "j \<le> m"
  shows "sub_result (submit_answer (int m) post a) = sub_result (submit_answer (int m) post j)
       \<and> sub_attempts (submit_answer (int m) post a)
           = sub_attempts (submit_answer (int m) post j) + (j - a)
       \<and> sub_sleeps (submit_answer (int m) post a)
           = map (\<lambda>k. min (2 ^ k) 10) [Suc a..<Suc j]
               @ sub_sleeps (submit_answer (int m) post j)"
  using assms
proof (induction "j - a" arbitrary: a)
  case 0
  then have "a = j" by simp
  then show ?case by simp
next
  case (Suc d)
  then have lt: "a < j" by simp
  have t: "server_error (post a)" using Suc.prems(1) lt by simp
  have "int a < int m" using lt Suc.prems(3) by simp
  with t have step: "submit_answer (int m) post a =
           (submit_answer (int m) post (Suc a))
             \<lparr>sub_attempts := Suc (sub_attempts (submit_answer (int m) post (Suc a))),
              sub_sleeps := min (2 ^ Suc a) 10 # sub_sleeps (submit_answer (int m) post (Suc a))\<rparr>"
    by (rule submit_answer_retries)
  have ih: "sub_result (submit_answer (int m) post (Suc a))
              = sub_result (submit_answer (int m) post j)
       \<and> sub_attempts (submit_answer (int m) post (Suc a))
           = sub_attempts (submit_answer (int m) post j) + (j - Suc a)
       \<and> sub_sleeps (submit_answer (int m) post (Suc a))
           = map (\<lambda>k. min (2 ^ k) 10) [Suc (Suc a)..<Suc j]
               @ sub_sleeps (submit_answer (int m) post j)"
  proof (rule Suc.hyps(1))
    show "d = j - Suc a" using Suc.hyps(2) by simp
    show "\<forall>k. Suc a \<le> k \<and> k < j \<longrightarrow> server_error (post k)"
      using Suc.prems(1) by simp
    show "Suc a \<le> j" using lt by simp
    show "j \<le> m" by (rule Suc.prems(3))
  qed
  have upt: "[Suc a..<Suc j] = Suc a # [Suc (Suc a)..<Suc j]"
    using lt by (simp add: upt_conv_Cons)
  have r: "sub_result (submit_answer (int m) post a)
             = sub_result (submit_answer (int m) post (Suc a))"
    and n: "sub_attempts (submit_answer (int m) post a)
             = Suc (sub_attempts (submit_answer (int m) post (Suc a)))"
    and s: "sub_sleeps (submit_answer (int m) post a)
             = min (2 ^ Suc a) 10 # sub_sleeps (submit_answer (int m) post (Suc a))"
    by (subst step, simp)+
  show ?case
    unfolding r n s upt using ih lt by simp
qed

lemma submit_answer_last:
  assumes "\<not> (server_error (post j) \<and> int j < mr)"
  shows "submit_answer mr post j =
    \<lparr>sub_result =
       (case post j of
          Parsed r \<Rightarrow> Inr r
        | HTTPStatusError c \<Rightarrow> Inl (NetworkError (''HTTP error during submission: '' @ str_nat c))
        | RequestError msg \<Rightarrow> Inl (keyword_clash ''error'')
        | PydanticValidationError msg \<Rightarrow> Inl (keyword_clash ''error'')
        | OtherException e \<Rightarrow> Inl e),
     sub_attempts = 1, sub_sleeps = []\<rparr>"
  using assms
  by (subst submit_answer.simps)
     (auto simp: server_error_def handle_error_returns handle_error_raises
           split: attempt_outcome.splits)

lemma submit_answer_run:
  assumes "\<forall>k<j. server_error (post k)" and "j \<le> m"
    and "\<not> (server_error (post j) \<and> j < m)"
  shows "submit_answer (int m) post 0 =
    \<lparr>sub_result =
       (case post j of
          Parsed r \<Rightarrow> Inr r
        | HTTPStatusError c \<Rightarrow> Inl (NetworkError (''HTTP error during submission: '' @ str_nat c))
        | RequestError msg \<Rightarrow> Inl (keyword_clash ''error'')
        | PydanticValidationError msg \<Rightarrow> Inl (keyword_clash ''error'')
        | OtherException e \<Rightarrow> Inl e),
     sub_attempts = Suc j, sub_sleeps = map (\<lambda>k. min (2 ^ k) 10) [1..<Suc j]\<rparr>"
proof -
  have "\<not> (server_error (post j) \<and> int j < int m)" using assms(3) by simp
  note last = submit_answer_last[where post = post and j = j and mr = "int m", OF this]
  have "sub_result (submit_answer (int m) post 0) = sub_result (submit_answer (int m) post j)
       \<and> sub_attempts (submit_answer (int m) post 0)
           = sub_attempts (submit_answer (int m) post j) + (j - 0)
       \<and> sub_sleeps (submit_answer (int m) post 0)
           = map (\<lambda>k. min (2 ^ k) 10) [Suc 0..<Suc j]
               @ sub_sleeps (submit_answer (int m) post j)"
    by (rule submit_answer_prefix) (use assms in auto)
  then show ?thesis unfolding last by (cases "submit_answer (int m) post 0") simp
qed

lemma call_llm_loop_prefix:
  assumes "\<forall>k. a \<le> k \<and> k < j \<longrightarrow> llm_retried (create k)"
    and "a \<le> j" and "j \<le> n" and "int j \<le> mr - 1"
  shows "call_llm_loop create mr [a..<n] calls sl =
           call_llm_loop create mr [j..<n] (calls + (j - a)) (sl @ map (\<lambda>k. 2 ^ k) [a..<j])"
  using assms
proof (induction "j - a" arbitrary: a calls sl)
  case 0
  then show ?case by simp
next
  case (Suc d)
  then have lt: "a < j" and an: "a < n" by simp_all
  have t: "llm_retried (create a)" using Suc.prems(1) lt by simp
  have am: "int a < mr - 1" using lt Suc.prems(4) by simp
  have step: "call_llm_loop create mr [a..<n] calls sl =
      call_llm_loop create mr [Suc a..<n] (Suc calls) (sl @ [2 ^ a])"
    using t am an by (auto simp: upt_conv_Cons llm_retried_def split: llm_outcome.splits)
  have "call_llm_loop create mr [Suc a..<n] (Suc calls) (sl @ [2 ^ a]) =
           call_llm_loop create mr [j..<n] (Suc calls + (j - Suc a))
             ((sl @ [2 ^ a]) @ map (\<lambda>k. 2 ^ k) [Suc a..<j])"
  proof (rule Suc.hyps(1))
    show "d = j - Suc a" using Suc.hyps(2) by simp
    show "\<forall>k. Suc a \<le> k \<and> k < j \<longrightarrow> llm_retried (create k)" using Suc.prems(1) by simp
    show "Suc a \<le> j" using lt by simp
  qed (use Suc.prems in auto)
  moreover have "Suc calls + (j - Suc a) = calls + (j - a)" using lt by arith
  moreover have "(sl @ [2 ^ a]) @ map (\<lambda>k. 2 ^ k) [Suc a..<j] = sl @ map (\<lambda>k. 2 ^ k) [a..<j]"
    using lt by (simp add: upt_conv_Cons)
  ultimately show ?case using step by (simp only:)
qed

lemma fetch_loop_prefix:
  assumes "\<forall>k. a \<le> k \<and> k < j \<longrightarrow> page_failed (load k)"
    and "a \<le> j" and "j \<le> n" and "int j \<le> mr - 1"
  shows "fetch_loop load u mr [a..<n] att sl =
           fetch_loop load u mr [j..<n] (att + (j - a)) (sl @ replicate (j - a) 1)"
  using assms
proof (induction "j - a" arbitrary: a att sl)
  case 0
  then show ?case by simp
next
  case (Suc d)
  then have lt: "a < j" and an: "a < n" by simp_all
  have t: "page_failed (load a)" using Suc.prems(1) lt by simp
  have am: "int a \<noteq> mr - 1" using lt Suc.prems(4) by simp
  have step: "fetch_loop load u mr [a..<n] att sl =
      fetch_loop load u mr [Suc a..<n] (Suc att) (sl @ [1])"
    using t am an by (auto simp: upt_conv_Cons page_failed_def split: page_outcome.splits)
  have "fetch_loop load u mr [Suc a..<n] (Suc att) (sl @ [1]) =
           fetch_loop load u mr [j..<n] (Suc att + (j - Suc a))
             ((sl @ [1]) @ replicate (j - Suc a) 1)"
  proof (rule Suc.hyps(1))
    show "d = j - Suc a" using Suc.hyps(2) by simp
    show "\<forall>k. Suc a \<le> k \<and> k < j \<longrightarrow> page_failed (load k)" using Suc.prems(1) by simp
    show "Suc a \<le> j" using lt by simp
  qed (use Suc.prems in auto)
  moreover have "Suc att + (j - Suc a) = att + (j - a)" using lt by arith
  moreover have "(sl @ [1]) @ replicate (j - Suc a) 1 = sl @ replicate (j - a) (1::nat)"
    using lt by (simp add: Suc_diff_Suc replicate_append_same flip: replicate_Suc)
  ultimately show ?case using step by (simp only:)
qed

lemma call_llm_all_fail:
  assumes "\<forall>k\<le>m. llm_retried (create k)" and mr: "mr = int m + 1"
  shows "llm_calls (call_llm_with_retry create mr) = Suc m"
    and "llm_sleeps (call_llm_with_retry create mr) = map (\<lambda>k. 2 ^ k) [0..<m]"
    and "\<exists>e. llm_result (call_llm_with_retry create mr) = Inl e"
proof -
  have n: "nat mr = Suc m" using mr by simp
  have p: "call_llm_loop create mr [0..<Suc m] 0 [] =
           call_llm_loop create mr [m..<Suc m] (0 + (m - 0))
             ([] @ map (\<lambda>k. 2 ^ k) [0..<m])"
    by (rule call_llm_loop_prefix) (use assms in auto)
  have "llm_retried (create m)" using assms by simp
  then have "call_llm_loop create mr [m..<Suc m] m (map (\<lambda>k. 2 ^ k) [0..<m]) =
    \<lparr>llm_result = Inl (case create m of RateLimitError e \<Rightarrow> e | APIError e \<Rightarrow> e),
     llm_calls = Suc m, llm_sleeps = map (\<lambda>k. 2 ^ k) [0..<m]\<rparr>"
    using mr by (auto simp: llm_retried_def split: llm_outcome.splits)
  with p show "llm_calls (call_llm_with_retry create mr) = Suc m"
    and "llm_sleeps (call_llm_with_retry create mr) = map (\<lambda>k. 2 ^ k) [0..<m]"
    and "\<exists>e. llm_result (call_llm_with_retry create mr) = Inl e"
    by (simp_all add: call_llm_with_retry_def n)
qed

lemma fetch_all_fail:
  assumes "\<forall>k\<le>m. page_failed (load k)" and mr: "mr = int m + 1"
  shows "fetch_attempts (fetch_and_render load u mr) = Suc m"
    and "fetch_sleeps (fetch_and_render load u mr) = replicate m 1"
    and "\<exists>e. fetch_result (fetch_and_render load u mr) = Inl e"
proof -
  have n: "nat mr = Suc m" using mr by simp
  have p: "fetch_loop load u mr [0..<Suc m] 0 [] =
           fetch_loop load u mr [m..<Suc m] (0 + (m - 0)) ([] @ replicate (m - 0) 1)"
    by (rule fetch_loop_prefix) (use assms in auto)
  have "page_failed (load m)" using assms by simp
  then have "\<exists>e. fetch_loop load u mr [m..<Suc m] m (replicate m 1) =
    \<lparr>fetch_result = Inl e, fetch_attempts = Suc m, fetch_sleeps = replicate m 1\<rparr>"
    using mr by (auto simp: page_failed_def split: page_outcome.splits)
  then obtain e where "fetch_loop load u mr [m..<Suc m] m (replicate m 1) =
    \<lparr>fetch_result = Inl e, fetch_attempts = Suc m, fetch_sleeps = replicate m 1\<rparr>"
    by blast
  with p have run: "fetch_and_render load u mr =
    \<lparr>fetch_result = Inl e, fetch_attempts = Suc m, fetch_sleeps = replicate m 1\<rparr>"
    by (simp add: fetch_and_render_def n)
  show "fetch_attempts (fetch_and_render load u mr) = Suc m"
    and "fetch_sleeps (fetch_and_render load u mr) = replicate m 1"
    and "\<exists>e. fetch_result (fetch_and_render load u mr) = Inl e"
    unfolding run by simp_all
qed

text \<open>
  Claim C3, as amended. None of the three components calls \<open>with_retry\<close>; each has a
  retry loop of its own with its own delays. When every attempt fails in a way the loop
  retries: answer submission that meets a status of 500 or above at every pass, under a cap
  of \<open>m\<close> retries, makes \<open>m + 1\<close> attempts and sleeps \<open>min (2 ^ k) 10\<close> seconds before
  retry \<open>k = 1..m\<close>; the LLM call with \<open>m + 1\<close> attempts
  sleeps \<open>2 ^ k\<close> seconds after attempt \<open>k = 0..m-1\<close>, without a cap; page rendering with
  \<open>m + 1\<close> attempts sleeps 1 second after each attempt but the last.
\<close>

theorem component_retry_delays:
  "((\<forall>k\<le>m. server_error (post k)) \<longrightarrow>
      sub_attempts (submit_answer (int m) post 0) = Suc m
      \<and> sub_sleeps (submit_answer (int m) post 0) = map (\<lambda>k. min (2 ^ k) 10) [1..<Suc m])
   \<and> ((\<forall>k\<le>m. llm_retried (create k)) \<longrightarrow>
      llm_calls (call_llm_with_retry create (int (Suc m))) = Suc m
      \<and> llm_sleeps (call_llm_with_retry create (int (Suc m))) = map (\<lambda>k. 2 ^ k) [0..<m])
   \<and> ((\<forall>k\<le>m. page_failed (load k)) \<longrightarrow>
      fetch_attempts (fetch_and_render load page_url (int (Suc m))) = Suc m
      \<and> fetch_sleeps (fetch_and_render load page_url (int (Suc m))) = replicate m 1)"
proof (intro conjI impI)
  assume a: "\<forall>k\<le>m. server_error (post k)"
  have "submit_answer (int m) post 0 =
    \<lparr>sub_result =
       (case post m of
          Parsed r \<Rightarrow> Inr r
        | HTTPStatusError c \<Rightarrow> Inl (NetworkError (''HTTP error during submission: '' @ str_nat c))
        | RequestError msg \<Rightarrow> Inl (keyword_clash ''error'')
        | PydanticValidationError msg \<Rightarrow> Inl (keyword_clash ''error'')
        | OtherException e \<Rightarrow> Inl e),
     sub_attempts = Suc m, sub_sleeps = map (\<lambda>k. min (2 ^ k) 10) [1..<Suc m]\<rparr>"
    by (rule submit_answer_run) (use a in auto)
  then show "sub_attempts (submit_answer (int m) post 0) = Suc m"
    and "sub_sleeps (submit_answer (int m) post 0) = map (\<lambda>k. min (2 ^ k) 10) [1..<Suc m]"
    by simp_all
qed (simp_all add: call_llm_all_fail [where mr = "int (Suc m)"]
      fetch_all_fail [where mr = "int (Suc m)"] del: of_nat_Suc)

text \<open>
  Three runs in which every attempt fails: submission with 2 retries, an LLM call and a
  page load with 3 attempts each.
\<close>

theorem component_retry_delays_witness:
  "sub_sleeps (submit_answer 2 (\<lambda>k. HTTPStatusError 500) 0) = [2, 4]
   \<and> llm_sleeps (call_llm_with_retry
         (\<lambda>k. (RateLimitError (builtin_error ''RateLimitError'' ''Rate limit reached'')
                  :: unit llm_outcome)) 3) = [1, 2]
   \<and> fetch_sleeps (fetch_and_render (\<lambda>k. PlaywrightTimeoutError ''Timeout 30000ms exceeded'')
         ''https://example.com/quiz'' 3) = [1, 1]"
  using component_retry_delays[of 2 "\<lambda>k. HTTPStatusError 500"
      "\<lambda>k. (RateLimitError (builtin_error ''RateLimitError'' ''Rate limit reached'')
                  :: unit llm_outcome)"
      "\<lambda>k. PlaywrightTimeoutError ''Timeout 30000ms exceeded''" "''https://example.com/quiz''"]
  by (simp add: server_error_def llm_retried_def page_failed_def upt_rec numeral_2_eq_2)

text \<open>
  The delays of answer submission are not those of the shared policy: after two responses
  with status 500 the submitter has slept 2 and 4 seconds, where \<open>calculate_delay\<close> of the
  shared handler gives 1 and 2 for its first two retries.
\<close>

theorem submit_delays_differ_counterexample:
  "map real (sub_sleeps (submit_answer 2 two_server_errors 0)) = [2, 4]
   \<and> map (calculate_delay error_handler) [0..<2] = [1, 2]"
  by (simp add: submit_answer.simps retry_submission.simps calculate_delay_def
      error_handler_def upt_rec two_server_errors_def handle_error_def
      error_handled_keywords_def)

text \<open>
  Claim C8, as amended. Let the first \<open>j\<close> passes of a submission meet a response with
  status 500 or above, under a cap of \<open>m \<ge> j\<close> retries. (1) If pass \<open>m\<close> meets such a
  response too, \<open>m + 1\<close> attempts were made, with \<open>min (2 ^ k) 10\<close> seconds slept before
  retry \<open>k\<close>, and a network error is raised. (2) A status from 400 to 499 in pass \<open>j\<close>
  raises a network error at once. (3) An exception of pass \<open>j\<close> that is no HTTP status
  error, request error or pydantic validation error, such as the decoder's error on a body
  that is not JSON, is raised unchanged at once.
\<close>

theorem submit_answer_retry_policy:
  assumes "j \<le> m" and "\<forall>k<j. server_error (post k)"
  shows "(j = m \<and> server_error (post m) \<longrightarrow>
            sub_attempts (submit_answer (int m) post 0) = Suc m
            \<and> sub_sleeps (submit_answer (int m) post 0) = map (\<lambda>k. min (2 ^ k) 10) [1..<Suc m]
            \<and> (\<exists>c. sub_result (submit_answer (int m) post 0)
                      = Inl (NetworkError (''HTTP error during submission: '' @ str_nat c))))
       \<and> (\<forall>c. post j = HTTPStatusError c \<and> 400 \<le> c \<and> c < 500 \<longrightarrow>
            submit_answer (int m) post 0 =
              \<lparr>sub_result = Inl (NetworkError (''HTTP error during submission: '' @ str_nat c)),
               sub_attempts = Suc j, sub_sleeps = map (\<lambda>k. min (2 ^ k) 10) [1..<Suc j]\<rparr>)
       \<and> (\<forall>e. post j = OtherException e \<longrightarrow>
            submit_answer (int m) post 0 =
              \<lparr>sub_result = Inl e,
               sub_attempts = Suc j, sub_sleeps = map (\<lambda>k. min (2 ^ k) 10) [1..<Suc j]\<rparr>)"
proof -
  have run: "submit_answer (int m) post 0 =
    \<lparr>sub_result =
       (case post j of
          Parsed r \<Rightarrow> Inr r
        | HTTPStatusError c \<Rightarrow> Inl (NetworkError (''HTTP error during submission: '' @ str_nat c))
        | RequestError msg \<Rightarrow> Inl (keyword_clash ''error'')
        | PydanticValidationError msg \<Rightarrow> Inl (keyword_clash ''error'')
        | OtherException e \<Rightarrow> Inl e),
     sub_attempts = Suc j, sub_sleeps = map (\<lambda>k. min (2 ^ k) 10) [1..<Suc j]\<rparr>"
    if "\<not> (server_error (post j) \<and> j < m)"
    using assms(2) assms(1) that by (rule submit_answer_run)
  show ?thesis
  proof (intro conjI impI allI)
    assume a: "j = m \<and> server_error (post m)"
    then have r: "\<not> (server_error (post j) \<and> j < m)" by simp
    show "sub_attempts (submit_answer (int m) post 0) = Suc m"
      and "sub_sleeps (submit_answer (int m) post 0) = map (\<lambda>k. min (2 ^ k) 10) [1..<Suc m]"
      unfolding run[OF r] using a by simp_all
    show "\<exists>c. sub_result (submit_answer (int m) post 0)
               = Inl (NetworkError (''HTTP error during submission: '' @ str_nat c))"
      unfolding run[OF r] using a
      by (auto simp: server_error_def split: attempt_outcome.splits)
  next
    fix c assume a: "post j = HTTPStatusError c \<and> 400 \<le> c \<and> c < 500"
    then have r: "\<not> (server_error (post j) \<and> j < m)" by (simp add: server_error_def)
    show "submit_answer (int m) post 0 =
              \<lparr>sub_result = Inl (NetworkError (''HTTP error during submission: '' @ str_nat c)),
               sub_attempts = Suc j, sub_sleeps = map (\<lambda>k. min (2 ^ k) 10) [1..<Suc j]\<rparr>"
      unfolding run[OF r] using a by simp
  next
    fix e assume a: "post j = OtherException e"
    then have r: "\<not> (server_error (post j) \<and> j < m)" by (simp add: server_error_def)
    show "submit_answer (int m) post 0 =
              \<lparr>sub_result = Inl e,
               sub_attempts = Suc j, sub_sleeps = map (\<lambda>k. min (2 ^ k) 10) [1..<Suc j]\<rparr>"
      unfolding run[OF r] using a by simp
  qed
qed

text \<open>
  Under a cap of 2: three responses with status 503; a response with status 500 followed
  by one with status 404; and a body that is not JSON.
\<close>

theorem submit_answer_retry_policy_witness:
  "sub_attempts (submit_answer 2 (\<lambda>k. HTTPStatusError 503) 0) = 3
   \<and> sub_sleeps (submit_answer 2 (\<lambda>k. HTTPStatusError 503) 0) = [2, 4]
   \<and> submit_answer 2 (\<lambda>k. if k < 1 then HTTPStatusError 500 else HTTPStatusError 404) 0
      = \<lparr>sub_result = Inl (NetworkError ''HTTP error during submission: 404''),
         sub_attempts = 2, sub_sleeps = [2]\<rparr>
   \<and> submit_answer 2 (\<lambda>k. OtherException json_decode_error) 0
      = \<lparr>sub_result = Inl json_decode_error, sub_attempts = 1, sub_sleeps = []\<rparr>"
proof -
  have s: "str_nat 404 = ''404''" by code_simp
  have l2: "map (\<lambda>k. min (2 ^ k) 10) [1..<Suc 2] = [2, 4 :: nat]"
    and l1: "map (\<lambda>k. min (2 ^ k) 10) [1..<Suc 1] = [2 :: nat]"
    by (simp_all add: upt_rec)
  have two: "int 2 = 2" by simp
  show ?thesis
    using submit_answer_retry_policy[of 2 2 "\<lambda>k. HTTPStatusError 503"]
      submit_answer_retry_policy[of 1 2
        "\<lambda>k. if k < 1 then HTTPStatusError 500 else HTTPStatusError 404"]
      submit_answer_retry_policy[of 0 2 "\<lambda>k. OtherException json_decode_error"]
    unfolding two l2 l1
    by (simp add: server_error_def s)
qed

text \<open>
  A body that is not JSON does not raise a validation error: the error of
  \<open>response.json()\<close> leaves \<open>submit_answer\<close> unchanged, it carries no category, and the
  classifier files it under data processing.
\<close>

theorem submit_invalid_json_counterexample:
  "submit_answer 2 body_not_json 0
     = \<lparr>sub_result = Inl json_decode_error, sub_attempts = 1, sub_sleeps = []\<rparr>
   \<and> exc_category json_decode_error = None
   \<and> classify_error json_decode_error = DATA_PROCESSING"
proof -
  have "classify_error json_decode_error = DATA_PROCESSING" by code_simp
  then show ?thesis
    by (simp add: submit_answer.simps json_decode_error_def body_not_json_def
        handle_error_def error_handled_keywords_def)
qed

text \<open>
  The clauses of \<open>submit_answer\<close> for request errors and for validation errors pass the key
  \<open>error\<close> to \<open>handle_error\<close>, which the logger call names itself: the call raises
  \<open>TypeError\<close> inside the clause, so a failure below HTTP is not retried and data that do
  not fit the response model raise no validation error. In both cases one attempt is made
  and nothing is slept, whatever the cap.
\<close>

lemma submit_answer_keyword_clash:
  assumes "post retry_count = RequestError message
           \<or> post retry_count = PydanticValidationError message"
  shows "submit_answer self_max_retries post retry_count =
           \<lparr>sub_result = Inl (keyword_clash ''error''), sub_attempts = 1, sub_sleeps = []\<rparr>"
  using assms
  by (subst submit_answer.simps)
     (auto simp: handle_error_def error_handled_keywords_def)


section \<open>Properties of the answer coercion\<close>

text \<open>
  Claim C9, as amended. For every text, every answer format, every behaviour of
  \<open>json.loads\<close> and every context, \<open>_parse_answer\<close> returns a value and raises nothing; and
  when the body of its \<open>try\<close> block raises, the value returned is the content with leading
  and trailing whitespace stripped.
\<close>

theorem parse_answer_total:
  "(\<exists>v. parse_answer json_loads results content fmt = Inr v)
   \<and> (\<forall>e. parse_answer_try json_loads results (strip content) fmt = Inl e \<longrightarrow>
          parse_answer json_loads results content fmt = Inr (PStr (strip content)))"
  by (auto simp: parse_answer_def split: sum.splits)

text \<open>
  A text that is not JSON, asked for as JSON: the decoder's error is raised in the body,
  no brace is found, and the stripped text comes back.
\<close>

theorem parse_answer_total_witness:
  "parse_answer_try not_json None (strip ''  the result  '') JSON = Inl json_decode_error
   \<and> parse_answer not_json None ''  the result  '' JSON = Inr (PStr ''the result'')"
proof -
  have h: "parse_answer_try not_json None (strip ''  the result  '') JSON = Inl json_decode_error"
    by code_simp
  have s: "strip ''  the result  '' = ''the result''"
    by code_simp
  show ?thesis
    using parse_answer_total[of not_json None "''  the result  ''" JSON] h s by simp
qed

text \<open>
  The text returned on failure is not the raw input: of the input \<open>" abc"\<close> the leading
  blank is gone.
\<close>

theorem parse_answer_strips_counterexample:
  "parse_answer not_json None '' abc'' JSON = Inr (PStr ''abc'')
   \<and> parse_answer not_json None '' abc'' JSON \<noteq> Inr (PStr '' abc'')"
proof -
  have "parse_answer not_json None '' abc'' JSON = Inr (PStr ''abc'')"
    by code_simp
  then show ?thesis by simp
qed


section \<open>Properties of the task parser\<close>











section \<open>Base64 and UTF-8 round trips\<close>




































text \<open>
  A remark on the fourth position. The pattern for the raw markup ends in \<open>={0,2}\b\<close>, and
  there is no word boundary between a padding character and a following character that
  is not a word character; the match then stops before the padding, and \<open>_is_base64\<close>
  rejects the unpadded run. So the encoding of the scenario text, which ends in \<open>==\<close>, is
  not found when it stands as bare text in a \<open>p\<close> element.
\<close>

lemma padded_run_not_found:
  "extract_base64_content bare_libs bare_html
     = Inl (value_error ''Could not find base64-encoded content in HTML'')"
  by code_simp

end
